theory Spec2Isabelle
  imports Main "HOL-Library.Sublist" "HOL-Library.AList"
begin

section \<open>JavaScript strings\<close>

text \<open>
  Strings of the program are modelled as \<^typ>\<open>string\<close>. The white space that
  \<^verbatim>\<open>String.prototype.trim\<close> removes is, on ASCII text, the six characters
  TAB, LF, VT, FF, CR and SPACE.
\<close>

definition isWhiteSpace :: "char \<Rightarrow> bool" where
  "isWhiteSpace c \<longleftrightarrow> c \<in> {CHR 0x09, CHR 0x0A, CHR 0x0B, CHR 0x0C, CHR 0x0D, CHR '' ''}"

definition trim :: "string \<Rightarrow> string" where
  "trim s = rev (dropWhile isWhiteSpace (rev (dropWhile isWhiteSpace s)))"

text \<open>\<^verbatim>\<open>s.startsWith(p)\<close> and \<^verbatim>\<open>s.includes(p)\<close>.\<close>

definition startsWith :: "string \<Rightarrow> string \<Rightarrow> bool" where
  "startsWith s p \<longleftrightarrow> prefix p s"

definition includesStr :: "string \<Rightarrow> string \<Rightarrow> bool" where
  "includesStr s p \<longleftrightarrow> sublist p s"

text \<open>
  \<^verbatim>\<open>split('\n')\<close> and \<^verbatim>\<open>join('\n')\<close>: the pieces between line feeds, and
  back.
\<close>

fun splitOn :: "char \<Rightarrow> string \<Rightarrow> string list" where
  "splitOn d [] = [[]]"
| "splitOn d (c # cs) =
     (if c = d then [] # splitOn d cs
      else (case splitOn d cs of [] \<Rightarrow> [[c]] | l # ls \<Rightarrow> (c # l) # ls))"

fun joinWith :: "string \<Rightarrow> string list \<Rightarrow> string" where
  "joinWith d [] = []"
| "joinWith d [l] = l"
| "joinWith d (l # m # ls) = l @ d @ joinWith d (m # ls)"

section \<open>Template substitution (extension.ts, messageCombine)\<close>

text \<open>
  \<^verbatim>\<open>result.replace(/<icon>/g, value)\<close> replaces every match of the pattern, found
  by a scan from left to right over non-overlapping matches. The placeholder patterns
  have no regular-expression operator and no capture group, so a match is an occurrence
  of the literal text. The replacement is a string, in which ECMAScript expands
  \<^verbatim>\<open>$$\<close> to a dollar sign, \<^verbatim>\<open>$&\<close> to the matched text,
  \<^verbatim>\<open>$`\<close> to the text before the match and \<^verbatim>\<open>$'\<close> to the text after
  it; with no capture group any other use of the dollar sign stands for itself.
\<close>

fun getSubstitution :: "string \<Rightarrow> string \<Rightarrow> string \<Rightarrow> string \<Rightarrow> string" where
  "getSubstitution matched pre post [] = []"
| "getSubstitution matched pre post [c] = [c]"
| "getSubstitution matched pre post (c # d # r) =
     (if c = CHR ''$'' \<and> d = CHR ''$'' then CHR ''$'' # getSubstitution matched pre post r
      else if c = CHR ''$'' \<and> d = CHR ''&'' then matched @ getSubstitution matched pre post r
      else if c = CHR ''$'' \<and> d = CHR 0x60 then pre @ getSubstitution matched pre post r
      else if c = CHR ''$'' \<and> d = CHR 0x27 then post @ getSubstitution matched pre post r
      else c # getSubstitution matched pre post (d # r))"

text \<open>
  \<open>replaceFrom pat repl pre rest\<close> scans \<open>rest\<close>, the text \<open>pre\<close> being what
  the scan has passed already (of the string the scan started on).
\<close>

fun replaceFrom :: "string \<Rightarrow> string \<Rightarrow> string \<Rightarrow> string \<Rightarrow> string" where
  "replaceFrom pat repl pre [] = []"
| "replaceFrom pat repl pre (c # cs) =
     (if pat \<noteq> [] \<and> prefix pat (c # cs)
      then getSubstitution pat pre (drop (length pat) (c # cs)) repl
             @ replaceFrom pat repl (pre @ pat) (drop (length pat - 1) cs)
      else c # replaceFrom pat repl (pre @ [c]) cs)"

definition replaceAll :: "string \<Rightarrow> string \<Rightarrow> string \<Rightarrow> string" where
  "replaceAll pat repl s = replaceFrom pat repl [] s"

record GitCommitMessage =
  templateName :: string
  templateContent :: string
  icon :: string
  type :: string
  scope :: string
  subject :: string
  body :: string
  footer :: string

text \<open>The eight placeholders, in the order in which messageCombine replaces them.\<close>

definition placeholders :: "string list" where
  "placeholders = [''<icon>'', ''<type>'', ''<scope>'', ''<subject>'', ''<body>'',
     ''<footer>'', ''<enter>'', ''<space>'']"

text \<open>
  The eight replacement passes of messageCombine (the lines that assign \<open>result\<close>
  before the version is looked up). \<open>isShowEmoji\<close> is the setting
  \<^verbatim>\<open>odinsamGitCommit.showEmoji\<close>.
\<close>

definition substitute :: "bool \<Rightarrow> GitCommitMessage \<Rightarrow> string \<Rightarrow> string" where
  "substitute isShowEmoji config template =
     (let result = template;
          result = (if isShowEmoji then replaceAll ''<icon>'' (icon config) result
                    else replaceAll ''<icon>'' [] result);
          result = (if type config \<noteq> [] then replaceAll ''<type>'' (type config) result
                    else replaceAll ''<type>'' [] result);
          result = (if scope config \<noteq> [] then replaceAll ''<scope>'' (scope config) result
                    else replaceAll ''<scope>'' [] result);
          result = (if subject config \<noteq> [] then replaceAll ''<subject>'' (subject config) result
                    else replaceAll ''<subject>'' [] result);
          result = (if body config \<noteq> [] then replaceAll ''<body>'' (body config) result
                    else replaceAll ''<body>'' [] result);
          result = (if footer config \<noteq> [] then replaceAll ''<footer>'' (footer config) result
                    else replaceAll ''<footer>'' [] result);
          result = replaceAll ''<enter>'' [CHR 0x0A, CHR 0x0A] result;
          result = replaceAll ''<space>'' '' '' result
      in result)"

text \<open>
  messageCombine. \<open>versionInfo\<close> is what the block guarded by the setting
  \<^verbatim>\<open>odinsamGitCommit.autoVersion\<close> obtains from
  \<^verbatim>\<open>VersionService.getVersionInfo\<close>: the empty string when the setting is off,
  when the Git extension or the repository is missing, or when the lookup throws.
  A non-empty value is appended after a blank line; the whole is trimmed.
\<close>

definition messageCombine :: "bool \<Rightarrow> string \<Rightarrow> GitCommitMessage \<Rightarrow> string" where
  "messageCombine isShowEmoji versionInfo config =
     (let result = substitute isShowEmoji config (templateContent config);
          result = (if versionInfo \<noteq> [] then result @ [CHR 0x0A, CHR 0x0A] @ versionInfo
                    else result)
      in trim result)"

text \<open>
  A template in which every opening angle bracket starts one of the placeholders of
  \<open>T\<close>, and the values that the passes insert: the icon only when emoji are shown.
\<close>

fun placeholdersOnly :: "string list \<Rightarrow> string \<Rightarrow> bool" where
  "placeholdersOnly T [] = True"
| "placeholdersOnly T (c # cs) =
     ((c = CHR ''<'' \<longrightarrow> (\<exists>t \<in> set T. prefix t (c # cs))) \<and> placeholdersOnly T cs)"

definition isToken :: "string \<Rightarrow> bool" where
  "isToken t \<longleftrightarrow> (\<exists>w. t = CHR ''<'' # w \<and> CHR ''<'' \<notin> set w)"

definition insertedValues :: "bool \<Rightarrow> GitCommitMessage \<Rightarrow> string list" where
  "insertedValues isShowEmoji config =
     (if isShowEmoji then [icon config] else [])
       @ [type config, scope config, subject config, body config, footer config]"

text \<open>The default template (template-type.ts) with sample field values, and two
  field sets whose values spell a placeholder.\<close>

definition angularExample :: GitCommitMessage where
  "angularExample = \<lparr>templateName = ''Angular'',
     templateContent = ''<icon><space><type>(<scope>):<space><subject><enter><body><enter><footer>'',
     icon = ''*'', type = ''feat'', scope = ''ui'', subject = ''add login'',
     body = ''first line'', footer = []\<rparr>"

definition subjectNamesIcon :: GitCommitMessage where
  "subjectNamesIcon = \<lparr>templateName = ''Custom'', templateContent = ''<subject>'',
     icon = [], type = [], scope = [], subject = ''<icon>'', body = [], footer = []\<rparr>"

definition subjectNamesType :: GitCommitMessage where
  "subjectNamesType = \<lparr>templateName = ''Custom'', templateContent = ''<subject>'',
     icon = [], type = ''feat'', scope = [], subject = ''<type>'', body = [], footer = []\<rparr>"


section \<open>Project version configuration (ConfigService)\<close>

text \<open>
  A path is an absolute POSIX path, held as the list of its components: the root
  directory is the empty list, \<^verbatim>\<open>path.dirname\<close> drops the last component and is
  the identity on the root, and \<^verbatim>\<open>path.join(dir, rel)\<close> resolves the components
  of \<open>rel\<close> against \<open>dir\<close>. A slash that ends \<open>rel\<close> is kept: it is the
  empty last component of the result, unless the result is the root.
\<close>

type_synonym path = "string list"

definition dirname :: "path \<Rightarrow> path" where
  "dirname p = butlast p"

fun resolveOnto :: "path \<Rightarrow> string list \<Rightarrow> path" where
  "resolveOnto p [] = p"
| "resolveOnto p (s # ss) =
     (if s = [] \<or> s = ''.'' then resolveOnto p ss
      else if s = ''..'' then resolveOnto (butlast p) ss
      else resolveOnto (p @ [s]) ss)"

definition pathJoin :: "path \<Rightarrow> string \<Rightarrow> path" where
  "pathJoin dir rel =
     (let joined = resolveOnto dir (splitOn (CHR ''/'') rel)
      in if rel \<noteq> [] \<and> last rel = CHR ''/'' \<and> joined \<noteq> [] then joined @ [[]] else joined)"

datatype fsNode = File string | Directory

text \<open>
  The result of \<^verbatim>\<open>content.match(new RegExp(versionRegex))\<close>: the constructor
  throws on a malformed pattern; a match is the matched text \<^verbatim>\<open>match[0]\<close> and
  the capture groups \<^verbatim>\<open>match[1]\<close>, \<^verbatim>\<open>match[2]\<close>, ..., a group that took
  no part in the match being \<^verbatim>\<open>undefined\<close>.
\<close>

datatype regexOutcome = SyntaxError | NoMatch | Match string "string option list"

text \<open>The interfaces GitCommitConfigFile and GitCommitProjectConfig.\<close>

record GitCommitProjectConfig =
  projectName :: string
  path :: string
  versionRegex :: string
  description :: "string option"

record GitCommitConfigFile =
  projectName :: "string option"
  path :: "string option"
  versionRegex :: "string option"
  description :: "string option"
  config :: "GitCommitProjectConfig list option"

text \<open>
  What the services read from their surroundings: the file system, \<^verbatim>\<open>JSON.parse\<close>
  (\<open>None\<close> when it throws) with its result cast to GitCommitConfigFile, the
  regular-expression engine, and \<^verbatim>\<open>execPromise(command, {cwd})\<close>, which gives the
  standard output of the command or the message of the error it throws.
\<close>

record host =
  files :: "path \<Rightarrow> fsNode option"
  jsonParse :: "string \<Rightarrow> GitCommitConfigFile option"
  regExpMatch :: "string \<Rightarrow> string \<Rightarrow> regexOutcome"
  shell :: "string \<Rightarrow> path \<Rightarrow> string + string"

text \<open>
  What the file-system calls find at a path. A path that ends in a slash (an empty last
  component) names the directory before the slash, and nothing when a file or nothing
  is there.
\<close>

definition nodeAt :: "host \<Rightarrow> path \<Rightarrow> fsNode option" where
  "nodeAt h p =
     (if p \<noteq> [] \<and> last p = []
      then (case files h (butlast p) of Some Directory \<Rightarrow> Some Directory | _ \<Rightarrow> None)
      else files h p)"

definition existsSync :: "host \<Rightarrow> path \<Rightarrow> bool" where
  "existsSync h p \<longleftrightarrow> nodeAt h p \<noteq> None"

definition isFile :: "host \<Rightarrow> path \<Rightarrow> bool" where
  "isFile h p \<longleftrightarrow> (case nodeAt h p of Some (File _) \<Rightarrow> True | _ \<Rightarrow> False)"

text \<open>JavaScript truthiness of an optional string: defined and not empty.\<close>

definition truthy :: "string option \<Rightarrow> bool" where
  "truthy v \<longleftrightarrow> (case v of None \<Rightarrow> False | Some s \<Rightarrow> s \<noteq> [])"

definition CONFIG_FILE_NAME :: string where
  "CONFIG_FILE_NAME = ''.gitcommit''"

text \<open>The upward search of findProjectRoot: it stops at the root without testing it.\<close>

function searchUpward :: "host \<Rightarrow> path \<Rightarrow> path option" where
  "searchUpward h currentPath =
     (if currentPath = dirname currentPath then None
      else if existsSync h (currentPath @ [CONFIG_FILE_NAME]) then Some currentPath
      else searchUpward h (dirname currentPath))"
  by pat_completeness auto
termination
  by (relation "measure (\<lambda>(h, p). length p)") (auto simp: dirname_def intro: diff_less)

definition findProjectRoot :: "host \<Rightarrow> path \<Rightarrow> path option" where
  "findProjectRoot h startPath =
     (let currentPath = (if existsSync h startPath \<and> isFile h startPath
                         then dirname startPath else startPath)
      in searchUpward h currentPath)"

text \<open>
  readConfig. The test \<^verbatim>\<open>jsonConfig.config && !Array.isArray(jsonConfig.config)\<close>
  has no counterpart: the field \<open>config\<close> of the interface is an array when present.
  An array, also an empty one, is truthy.
\<close>

definition readConfig :: "host \<Rightarrow> path \<Rightarrow> GitCommitConfigFile option" where
  "readConfig h projectRoot =
     (let configPath = projectRoot @ [CONFIG_FILE_NAME] in
      case nodeAt h configPath of
        None \<Rightarrow> None
      | Some Directory \<Rightarrow> None
      | Some (File text) \<Rightarrow>
          (let configContent = trim text;
               configContent = joinWith [CHR 0x0A]
                  (filter (\<lambda>line. \<not> startsWith (trim line) ''//'')
                     (splitOn (CHR 0x0A) configContent))
           in case jsonParse h configContent of
                None \<Rightarrow> None
              | Some jsonConfig \<Rightarrow>
                  if config jsonConfig = None
                     \<and> (\<not> truthy (GitCommitConfigFile.projectName jsonConfig)
                          \<or> \<not> truthy (GitCommitConfigFile.path jsonConfig))
                  then None
                  else Some jsonConfig))"

definition getProjectConfig :: "host \<Rightarrow> path \<Rightarrow> string option \<Rightarrow> GitCommitProjectConfig option" where
  "getProjectConfig h configFileRoot projectNameArg =
     (case readConfig h configFileRoot of
        None \<Rightarrow> None
      | Some configFile \<Rightarrow>
          (case config configFile of
             None \<Rightarrow>
               (if truthy (GitCommitConfigFile.projectName configFile)
                   \<and> truthy (GitCommitConfigFile.path configFile)
                   \<and> truthy (GitCommitConfigFile.versionRegex configFile)
                then Some \<lparr>GitCommitProjectConfig.projectName =
                              the (GitCommitConfigFile.projectName configFile),
                           path = the (GitCommitConfigFile.path configFile),
                           versionRegex = the (GitCommitConfigFile.versionRegex configFile),
                           description = GitCommitConfigFile.description configFile\<rparr>
                else None)
           | Some projects \<Rightarrow>
               (case (if truthy projectNameArg
                      then find (\<lambda>p. GitCommitProjectConfig.projectName p = the projectNameArg)
                             projects
                      else None) of
                  Some projectConfig \<Rightarrow> Some projectConfig
                | None \<Rightarrow>
                    (case projects of
                       [] \<Rightarrow> None
                     | first # _ \<Rightarrow> Some first))))"

text \<open>\<^verbatim>\<open>match[1]\<close> of a match.\<close>

definition captureGroup1 :: "string option list \<Rightarrow> string option" where
  "captureGroup1 groups = (case groups of [] \<Rightarrow> None | g # _ \<Rightarrow> g)"

definition readVersionFromFile :: "host \<Rightarrow> path \<Rightarrow> string \<Rightarrow> string \<Rightarrow> string option" where
  "readVersionFromFile h configFileRoot filePath versionRegexArg =
     (let fullPath = pathJoin configFileRoot filePath in
      case nodeAt h fullPath of
        None \<Rightarrow> None
      | Some Directory \<Rightarrow> None
      | Some (File content) \<Rightarrow>
          (case regExpMatch h versionRegexArg content of
             SyntaxError \<Rightarrow> None
           | NoMatch \<Rightarrow> None
           | Match whole groups \<Rightarrow>
               if truthy (captureGroup1 groups) then Some (trim (the (captureGroup1 groups)))
               else if whole \<noteq> [] then Some (trim whole)
               else None))"

definition getProjectVersion :: "host \<Rightarrow> path \<Rightarrow> string option \<Rightarrow> string option" where
  "getProjectVersion h startPath projectNameArg =
     (case findProjectRoot h startPath of
        None \<Rightarrow> None
      | Some configFileRoot \<Rightarrow>
          (case getProjectConfig h configFileRoot projectNameArg of
             None \<Rightarrow> None
           | Some cfg \<Rightarrow>
               if GitCommitProjectConfig.path cfg \<noteq> []
                  \<and> GitCommitProjectConfig.versionRegex cfg \<noteq> []
               then (case readVersionFromFile h configFileRoot (GitCommitProjectConfig.path cfg)
                            (GitCommitProjectConfig.versionRegex cfg) of
                       Some version \<Rightarrow> if version \<noteq> [] then Some version else None
                     | None \<Rightarrow> None)
               else None))"

section \<open>Version resolution (VersionService)\<close>

datatype versionError = GetVersionFailed string

definition getLatestTag :: "host \<Rightarrow> path \<Rightarrow> string option" where
  "getLatestTag h projectRoot =
     (case shell h ''git describe --tags --abbrev=0'' projectRoot of
        Inr stdout \<Rightarrow> (if trim stdout \<noteq> [] then Some (trim stdout) else None)
      | Inl _ \<Rightarrow> None)"

text \<open>
  getCurrentVersion. \<open>filePath\<close> is \<open>None\<close> when the argument is undefined or
  the empty string, the two values that the test \<^verbatim>\<open>if (filePath)\<close> rejects. A
  failure of the last command is rethrown with its message.
\<close>

definition getCurrentVersion :: "host \<Rightarrow> path \<Rightarrow> path option \<Rightarrow> string option \<Rightarrow> versionError + string" where
  "getCurrentVersion h projectRoot filePath projectNameArg =
     (let configVersion = (case filePath of
                             Some fp \<Rightarrow> getProjectVersion h fp projectNameArg
                           | None \<Rightarrow> None)
      in if truthy configVersion then Inr (the configVersion)
         else
           (let tagOutput = (case shell h ''git describe --tags --exact-match HEAD'' projectRoot of
                               Inr stdout \<Rightarrow> trim stdout
                             | Inl _ \<Rightarrow> [])
            in if trim tagOutput \<noteq> [] then Inr (trim tagOutput)
               else (case shell h ''git rev-parse --short=8 HEAD'' projectRoot of
                       Inr hashOutput \<Rightarrow> Inr (trim hashOutput)
                     | Inl errorMessage \<Rightarrow> Inl (GetVersionFailed errorMessage))))"

definition getCurrentBranch :: "host \<Rightarrow> path \<Rightarrow> string option" where
  "getCurrentBranch h projectRoot =
     (case shell h ''git rev-parse --abbrev-ref HEAD'' projectRoot of
        Inr stdout \<Rightarrow> (if trim stdout \<noteq> [] then Some (trim stdout) else None)
      | Inl _ \<Rightarrow> None)"

text \<open>The labels of getVersionInfo, as their UTF-8 bytes.\<close>

definition labelVersion :: string where
  "labelVersion = [CHR 0xE7, CHR 0x89, CHR 0x88, CHR 0xE6, CHR 0x9C, CHR 0xAC, CHR 0x3A, CHR 0x20]"

definition labelBranch :: string where
  "labelBranch = [CHR 0xE5, CHR 0x88, CHR 0x86, CHR 0xE6, CHR 0x94, CHR 0xAF, CHR 0x3A, CHR 0x20]"

definition labelConfigFile :: string where
  "labelConfigFile = [CHR 0x20, CHR 0x28, CHR 0xE9, CHR 0x85, CHR 0x8D, CHR 0xE7, CHR 0xBD,
     CHR 0xAE, CHR 0xE6, CHR 0x96, CHR 0x87, CHR 0xE4, CHR 0xBB, CHR 0xB6, CHR 0x29]"

definition labelBasedOn :: string where
  "labelBasedOn = [CHR 0x20, CHR 0x28, CHR 0xE5, CHR 0x9F, CHR 0xBA, CHR 0xE4, CHR 0xBA,
     CHR 0x8E, CHR 0x20]"

text \<open>
  The guard that opens getVersionInfo: a file path is given, the project name is
  undefined, and the configuration found from the path has a non-empty \<open>config\<close>
  array.
\<close>

definition multiProjectUnselected :: "host \<Rightarrow> path option \<Rightarrow> string option \<Rightarrow> bool" where
  "multiProjectUnselected h filePath projectNameArg \<longleftrightarrow>
     (case filePath of
        None \<Rightarrow> False
      | Some fp \<Rightarrow>
          projectNameArg = None \<and>
          (case findProjectRoot h fp of
             None \<Rightarrow> False
           | Some configFileRoot \<Rightarrow>
               (case readConfig h configFileRoot of
                  None \<Rightarrow> False
                | Some configFile \<Rightarrow>
                    (case config configFile of
                       None \<Rightarrow> False
                     | Some projects \<Rightarrow> length projects > 0))))"

definition getVersionInfo :: "host \<Rightarrow> path \<Rightarrow> path option \<Rightarrow> string option \<Rightarrow> string" where
  "getVersionInfo h projectRoot filePath projectNameArg =
     (if multiProjectUnselected h filePath projectNameArg then []
      else
        (case getCurrentVersion h projectRoot filePath projectNameArg of
           Inl _ \<Rightarrow> []
         | Inr currentVersion \<Rightarrow>
             (let latestTag = getLatestTag h projectRoot;
                  currentBranch = getCurrentBranch h projectRoot;
                  configVersion = (case filePath of
                                     Some fp \<Rightarrow> getProjectVersion h fp projectNameArg
                                   | None \<Rightarrow> None);
                  isFromConfig = (configVersion \<noteq> None);
                  versionInfo = labelVersion @ currentVersion;
                  versionInfo =
                    (if isFromConfig \<and> filePath \<noteq> None then
                       (case findProjectRoot h (the filePath) of
                          Some configFileRoot \<Rightarrow>
                            (case getProjectConfig h configFileRoot projectNameArg of
                               Some projectConfig \<Rightarrow>
                                 (if GitCommitProjectConfig.projectName projectConfig \<noteq> []
                                  then versionInfo @ '' ('' 
                                         @ GitCommitProjectConfig.projectName projectConfig @ '')''
                                  else versionInfo @ labelConfigFile)
                             | None \<Rightarrow> versionInfo @ labelConfigFile)
                        | None \<Rightarrow> versionInfo)
                     else if latestTag \<noteq> None \<and> currentVersion \<noteq> the latestTag
                     then versionInfo @ labelBasedOn @ the latestTag @ '')''
                     else versionInfo);
                  versionInfo =
                    (if currentBranch \<noteq> None \<and> \<not> includesStr (the currentBranch) ''HEAD''
                     then versionInfo @ [CHR 0x0A] @ labelBranch @ the currentBranch
                     else versionInfo)
              in versionInfo)))"

section \<open>A fragment of the ECMAScript regular expressions\<close>

text \<open>
  The patterns of the fragment are sequences of literal characters, the escapes
  \<^verbatim>\<open>\d \s \w \D \S \W \n \r \t\<close>, escaped punctuation, the dot, character classes
  with ranges, each of them possibly followed by one greedy quantifier \<^verbatim>\<open>* + ?\<close>,
  and capture groups that carry no quantifier. \<open>parsePattern\<close> gives \<open>None\<close>
  on every other pattern.
\<close>

datatype charSet = Lit char | Digit | Space | WordChar | AnyChar | Range char char
  | Class bool "charSet list"

fun inCharSet :: "charSet \<Rightarrow> char \<Rightarrow> bool" where
  "inCharSet (Lit a) c \<longleftrightarrow> c = a"
| "inCharSet Digit c \<longleftrightarrow> (48::nat) \<le> of_char c \<and> (of_char c :: nat) \<le> 57"
| "inCharSet Space c \<longleftrightarrow> isWhiteSpace c"
| "inCharSet WordChar c \<longleftrightarrow>
     ((48::nat) \<le> of_char c \<and> (of_char c :: nat) \<le> 57)
     \<or> ((65::nat) \<le> of_char c \<and> (of_char c :: nat) \<le> 90)
     \<or> ((97::nat) \<le> of_char c \<and> (of_char c :: nat) \<le> 122)
     \<or> c = CHR ''_''"
| "inCharSet AnyChar c \<longleftrightarrow> c \<noteq> CHR 0x0A \<and> c \<noteq> CHR 0x0D"
| "inCharSet (Range a b) c \<longleftrightarrow> (of_char a :: nat) \<le> of_char c \<and> (of_char c :: nat) \<le> of_char b"
| "inCharSet (Class negated items) c \<longleftrightarrow> (negated \<noteq> (\<exists>i \<in> set items. inCharSet i c))"

datatype quantifier = Once | ZeroOrMore | OneOrMore | Optional

datatype regexToken = TAtom charSet | TStar | TPlus | TQuestion | TOpen | TClose

datatype regexItem = Atom charSet quantifier | GroupOpen | GroupClose

definition escapeSet :: "char \<Rightarrow> charSet option" where
  "escapeSet c =
     (if c = CHR ''d'' then Some Digit
      else if c = CHR ''s'' then Some Space
      else if c = CHR ''w'' then Some WordChar
      else if c = CHR ''D'' then Some (Class True [Digit])
      else if c = CHR ''S'' then Some (Class True [Space])
      else if c = CHR ''W'' then Some (Class True [WordChar])
      else if c = CHR ''n'' then Some (Lit (CHR 0x0A))
      else if c = CHR ''r'' then Some (Lit (CHR 0x0D))
      else if c = CHR ''t'' then Some (Lit (CHR 0x09))
      else if inCharSet WordChar c then None
      else Some (Lit c))"

text \<open>
  The scanner: \<open>cls\<close> is \<open>None\<close> outside a character class, and inside one
  it holds whether the class is negated and the members read so far, last first.
\<close>

fun tokenize :: "(bool \<times> charSet list) option \<Rightarrow> string \<Rightarrow> regexToken list option" where
  "tokenize None [] = Some []"
| "tokenize (Some cl) [] = None"
| "tokenize None [c] =
     (if c = CHR ''*'' then Some [TStar]
      else if c = CHR ''+'' then Some [TPlus]
      else if c = CHR ''?'' then Some [TQuestion]
      else if c = CHR ''('' then Some [TOpen]
      else if c = CHR '')'' then Some [TClose]
      else if c = CHR ''.'' then Some [TAtom AnyChar]
      else if c \<in> set ''[]{}|^$'' \<or> c = CHR 0x5C then None
      else Some [TAtom (Lit c)])"
| "tokenize None (c # d # r) =
     (if c = CHR 0x5C then
        (case escapeSet d of
           None \<Rightarrow> None
         | Some cs \<Rightarrow> map_option (Cons (TAtom cs)) (tokenize None r))
      else if c = CHR ''['' then
        (if d = CHR ''^'' then tokenize (Some (True, [])) r
         else tokenize (Some (False, [])) (d # r))
      else if c = CHR ''('' then
        (if d = CHR ''?'' then None else map_option (Cons TOpen) (tokenize None (d # r)))
      else if c = CHR ''*'' then map_option (Cons TStar) (tokenize None (d # r))
      else if c = CHR ''+'' then map_option (Cons TPlus) (tokenize None (d # r))
      else if c = CHR ''?'' then map_option (Cons TQuestion) (tokenize None (d # r))
      else if c = CHR '')'' then map_option (Cons TClose) (tokenize None (d # r))
      else if c = CHR ''.'' then map_option (Cons (TAtom AnyChar)) (tokenize None (d # r))
      else if c \<in> set '']{}|^$'' then None
      else map_option (Cons (TAtom (Lit c))) (tokenize None (d # r)))"
| "tokenize (Some (negated, acc)) [c] =
     (if c = CHR '']'' then Some [TAtom (Class negated (rev acc))] else None)"
| "tokenize (Some (negated, acc)) (c # d # r) =
     (if c = CHR '']'' then
        map_option (Cons (TAtom (Class negated (rev acc)))) (tokenize None (d # r))
      else if c = CHR 0x5C then
        (case escapeSet d of
           None \<Rightarrow> None
         | Some cs \<Rightarrow> tokenize (Some (negated, cs # acc)) r)
      else if d = CHR ''-'' then
        (case r of
           [] \<Rightarrow> None
         | e # r' \<Rightarrow>
             if e = CHR '']'' then tokenize (Some (negated, Lit d # Lit c # acc)) r
             else if e = CHR 0x5C then None
             else tokenize (Some (negated, Range c e # acc)) r')
      else tokenize (Some (negated, Lit c # acc)) (d # r))"

text \<open>Quantifiers attach to the atom before them; a lazy quantifier, a quantified
  group and a quantifier with nothing before it are outside the fragment.\<close>

fun itemize :: "regexToken list \<Rightarrow> regexItem list option" where
  "itemize [] = Some []"
| "itemize (TAtom cs # TStar # TQuestion # ts) = None"
| "itemize (TAtom cs # TPlus # TQuestion # ts) = None"
| "itemize (TAtom cs # TQuestion # TQuestion # ts) = None"
| "itemize (TAtom cs # TStar # ts) = map_option (Cons (Atom cs ZeroOrMore)) (itemize ts)"
| "itemize (TAtom cs # TPlus # ts) = map_option (Cons (Atom cs OneOrMore)) (itemize ts)"
| "itemize (TAtom cs # TQuestion # ts) = map_option (Cons (Atom cs Optional)) (itemize ts)"
| "itemize (TAtom cs # ts) = map_option (Cons (Atom cs Once)) (itemize ts)"
| "itemize (TOpen # ts) = map_option (Cons GroupOpen) (itemize ts)"
| "itemize (TClose # TStar # ts) = None"
| "itemize (TClose # TPlus # ts) = None"
| "itemize (TClose # TQuestion # ts) = None"
| "itemize (TClose # ts) = map_option (Cons GroupClose) (itemize ts)"
| "itemize (TStar # ts) = None"
| "itemize (TPlus # ts) = None"
| "itemize (TQuestion # ts) = None"

text \<open>The parentheses of a pattern are balanced.\<close>

fun balanced :: "nat \<Rightarrow> regexItem list \<Rightarrow> bool" where
  "balanced n [] \<longleftrightarrow> n = 0"
| "balanced n (GroupOpen # is) \<longleftrightarrow> balanced (Suc n) is"
| "balanced n (GroupClose # is) \<longleftrightarrow> n > 0 \<and> balanced (n - 1) is"
| "balanced n (Atom cs q # is) \<longleftrightarrow> balanced n is"

definition parsePattern :: "string \<Rightarrow> regexItem list option" where
  "parsePattern p =
     (case tokenize None p of
        None \<Rightarrow> None
      | Some ts \<Rightarrow>
          (case itemize ts of
             None \<Rightarrow> None
           | Some is \<Rightarrow> if balanced 0 is then Some is else None))"

fun firstSome :: "'a option list \<Rightarrow> 'a option" where
  "firstSome [] = None"
| "firstSome (Some x # r) = Some x"
| "firstSome (None # r) = firstSome r"

text \<open>
  The backtracking matcher at one start position. \<open>matched\<close> is the text matched so
  far, \<open>opens\<close> the groups that are open (number and start offset), \<open>n\<close> the number
  of groups opened so far, \<open>caps\<close> the captures. A quantified atom takes as many
  characters as it can and gives them back one at a time.
\<close>

fun matchItems :: "regexItem list \<Rightarrow> string \<Rightarrow> string \<Rightarrow> (nat \<times> nat) list \<Rightarrow> nat
    \<Rightarrow> string option list \<Rightarrow> (string \<times> string option list) option" where
  "matchItems [] matched rest opens n caps = Some (matched, caps)"
| "matchItems (GroupOpen # is) matched rest opens n caps =
     matchItems is matched rest ((n, length matched) # opens) (Suc n) caps"
| "matchItems (GroupClose # is) matched rest opens n caps =
     (case opens of
        [] \<Rightarrow> None
      | (k, start) # os \<Rightarrow> matchItems is matched rest os n (caps[k := Some (drop start matched)]))"
| "matchItems (Atom cs q # is) matched rest opens n caps =
     firstSome
       (map (\<lambda>k. matchItems is (matched @ take k rest) (drop k rest) opens n caps)
          (case q of
             Once \<Rightarrow> (if takeWhile (inCharSet cs) rest = [] then [] else [1])
           | Optional \<Rightarrow> (if takeWhile (inCharSet cs) rest = [] then [0] else [1, 0])
           | ZeroOrMore \<Rightarrow> rev [0 ..< Suc (length (takeWhile (inCharSet cs) rest))]
           | OneOrMore \<Rightarrow> rev [1 ..< Suc (length (takeWhile (inCharSet cs) rest))]))"

fun searchFrom :: "regexItem list \<Rightarrow> string \<Rightarrow> regexOutcome" where
  "searchFrom is [] =
     (case matchItems is [] [] [] 0 (replicate (length (filter (\<lambda>i. i = GroupOpen) is)) None) of
        Some (whole, caps) \<Rightarrow> Match whole caps
      | None \<Rightarrow> NoMatch)"
| "searchFrom is (c # r) =
     (case matchItems is [] (c # r) [] 0 (replicate (length (filter (\<lambda>i. i = GroupOpen) is)) None) of
        Some (whole, caps) \<Rightarrow> Match whole caps
      | None \<Rightarrow> searchFrom is r)"

definition fragmentMatch :: "string \<Rightarrow> string \<Rightarrow> regexOutcome option" where
  "fragmentMatch pattern content = map_option (\<lambda>is. searchFrom is content) (parsePattern pattern)"

section \<open>Sample surroundings\<close>

text \<open>
  The pattern of the README and of the specification,
  \<^verbatim>\<open>"version"\s*:\s*"([\d.]+)"\<close>, and a pattern whose only group may match the
  empty text.
\<close>

definition versionPattern :: string where
  \<open>versionPattern = ''"version"'' @ [CHR 0x5C] @ ''s*:'' @ [CHR 0x5C] @ ''s*"(['' @ [CHR 0x5C] @ ''d.]+)"''\<close>

definition emptyGroupPattern :: string where
  \<open>emptyGroupPattern = ''v('' @ [CHR 0x5C] @ ''d*)''\<close>

text \<open>The texts of two \<^verbatim>\<open>.gitcommit\<close> files, without their comment lines, and the
  objects that \<^verbatim>\<open>JSON.parse\<close> makes of them.\<close>

definition singleConfigText :: string where
  \<open>singleConfigText = ''{"projectName": "app", "path": "package.json", "versionRegex": "'' @ [CHR 0x5C] @ ''"version'' @ [CHR 0x5C] @ ''"'' @ [CHR 0x5C] @ [CHR 0x5C] @ ''s*:'' @ [CHR 0x5C] @ [CHR 0x5C] @ ''s*'' @ [CHR 0x5C] @ ''"(['' @ [CHR 0x5C] @ [CHR 0x5C] @ ''d.]+)'' @ [CHR 0x5C] @ ''""}''\<close>

definition multiConfigText :: string where
  \<open>multiConfigText = ''{"config": [{"projectName": "api", "path": "api/package.json", "versionRegex": "'' @ [CHR 0x5C] @ ''"version'' @ [CHR 0x5C] @ ''"'' @ [CHR 0x5C] @ [CHR 0x5C] @ ''s*:'' @ [CHR 0x5C] @ [CHR 0x5C] @ ''s*'' @ [CHR 0x5C] @ ''"(['' @ [CHR 0x5C] @ [CHR 0x5C] @ ''d.]+)'' @ [CHR 0x5C] @ ''""}, {"projectName": "web", "path": "web/package.json", "versionRegex": "'' @ [CHR 0x5C] @ ''"version'' @ [CHR 0x5C] @ ''"'' @ [CHR 0x5C] @ [CHR 0x5C] @ ''s*:'' @ [CHR 0x5C] @ [CHR 0x5C] @ ''s*'' @ [CHR 0x5C] @ ''"(['' @ [CHR 0x5C] @ [CHR 0x5C] @ ''d.]+)'' @ [CHR 0x5C] @ ''""}]}''\<close>

definition apiProject :: GitCommitProjectConfig where
  "apiProject = \<lparr>GitCommitProjectConfig.projectName = ''api'', path = ''api/package.json'',
     versionRegex = versionPattern, description = None\<rparr>"

definition webProject :: GitCommitProjectConfig where
  "webProject = \<lparr>GitCommitProjectConfig.projectName = ''web'', path = ''web/package.json'',
     versionRegex = versionPattern, description = None\<rparr>"

definition singleConfigFile :: GitCommitConfigFile where
  "singleConfigFile = \<lparr>GitCommitConfigFile.projectName = Some ''app'',
     path = Some ''package.json'', versionRegex = Some versionPattern, description = None,
     config = None\<rparr>"

definition multiConfigFile :: GitCommitConfigFile where
  "multiConfigFile = \<lparr>GitCommitConfigFile.projectName = None, path = None,
     versionRegex = None, description = None, config = Some [apiProject, webProject]\<rparr>"

definition sampleJsonParse :: "string \<Rightarrow> GitCommitConfigFile option" where
  "sampleJsonParse text =
     (if text = singleConfigText then Some singleConfigFile
      else if text = multiConfigText then Some multiConfigFile
      else None)"

text \<open>The sample engine reports a pattern outside the fragment as malformed; no
  statement below evaluates it on one.\<close>

definition sampleRegExpMatch :: "string \<Rightarrow> string \<Rightarrow> regexOutcome" where
  "sampleRegExpMatch pattern content =
     (case fragmentMatch pattern content of Some outcome \<Rightarrow> outcome | None \<Rightarrow> SyntaxError)"

text \<open>
  A repository \<^verbatim>\<open>/repo\<close> with a single-project configuration, whose HEAD carries
  the tag \<^verbatim>\<open>v9.9.9\<close>; the same repository without the tag; a monorepo
  \<^verbatim>\<open>/mono\<close> with the two projects \<open>api\<close> and \<open>web\<close>; and a monorepo
  \<^verbatim>\<open>/lost\<close> with the same configuration, in which the version file of \<open>api\<close>
  is missing.
\<close>

definition sampleFiles :: "path \<Rightarrow> fsNode option" where
  \<open>sampleFiles p =
     (if p = [''repo''] \<or> p = [''repo'', ''src''] \<or> p = [''mono''] \<or> p = [''mono'', ''api'']
         \<or> p = [''mono'', ''web''] \<or> p = [''mono'', ''web'', ''src'']
         \<or> p = [''lost''] \<or> p = [''lost'', ''web''] then Some Directory
      else if p = [''repo'', ''.gitcommit'']
        then Some (File (''// version source'' @ [CHR 0x0A] @ singleConfigText @ [CHR 0x0A]))
      else if p = [''repo'', ''package.json''] then Some (File ''{"version": "1.2.3"}'')
      else if p = [''repo'', ''VERSION''] then Some (File ''v'')
      else if p = [''repo'', ''src'', ''main.ts''] then Some (File ''export {}'')
      else if p = [''mono'', ''.gitcommit''] then Some (File multiConfigText)
      else if p = [''mono'', ''api'', ''package.json''] then Some (File ''{"version": "1.2.3"}'')
      else if p = [''mono'', ''web'', ''package.json''] then Some (File ''{"version": "4.5.6"}'')
      else if p = [''mono'', ''web'', ''src'', ''main.ts''] then Some (File ''export {}'')
      else if p = [''lost'', ''.gitcommit''] then Some (File multiConfigText)
      else if p = [''lost'', ''web'', ''package.json''] then Some (File ''{"version": "4.5.6"}'')
      else if p = [''lost'', ''web'', ''main.ts''] then Some (File ''export {}'')
      else None)\<close>

definition taggedShell :: "string \<Rightarrow> path \<Rightarrow> string + string" where
  "taggedShell command cwd =
     (if command = ''git describe --tags --exact-match HEAD'' then Inr (''v9.9.9'' @ [CHR 0x0A])
      else if command = ''git describe --tags --abbrev=0'' then Inr (''v9.9.9'' @ [CHR 0x0A])
      else if command = ''git rev-parse --short=8 HEAD'' then Inr (''a1b2c3d4'' @ [CHR 0x0A])
      else if command = ''git rev-parse --abbrev-ref HEAD'' then Inr (''develop'' @ [CHR 0x0A])
      else Inl ''Command failed'')"

definition untaggedShell :: "string \<Rightarrow> path \<Rightarrow> string + string" where
  "untaggedShell command cwd =
     (if command = ''git describe --tags --exact-match HEAD''
        then Inl ''fatal: no tag exactly matches''
      else if command = ''git describe --tags --abbrev=0'' then Inr (''v9.9.8'' @ [CHR 0x0A])
      else if command = ''git rev-parse --short=8 HEAD'' then Inr (''a1b2c3d4'' @ [CHR 0x0A])
      else if command = ''git rev-parse --abbrev-ref HEAD'' then Inr (''develop'' @ [CHR 0x0A])
      else Inl ''Command failed'')"

definition taggedHost :: host where
  "taggedHost = \<lparr>files = sampleFiles, jsonParse = sampleJsonParse,
     regExpMatch = sampleRegExpMatch, shell = taggedShell\<rparr>"

definition untaggedHost :: host where
  "untaggedHost = \<lparr>files = sampleFiles, jsonParse = sampleJsonParse,
     regExpMatch = sampleRegExpMatch, shell = untaggedShell\<rparr>"

section \<open>Git Flow (GitFlowService)\<close>

datatype branchType = Feature | Release | Hotfix | Support

text \<open>
  The errors that the service throws: the failure of a git command with the message
  of the process, no repository (init words this message at greater length), Git Flow
  not initialized, and the errors with which init, the start operations and the finish
  operations wrap what they catch.
\<close>

datatype gitFlowError =
    GitCommandFailed string
  | RepositoryNotFound
  | NotInitialized
  | InitFailed gitFlowError
  | StartFailed branchType gitFlowError
  | FinishFailed branchType gitFlowError

record GitFlowConfigPartial =
  masterBranch :: "string option"
  developBranch :: "string option"
  featurePrefix :: "string option"
  releasePrefix :: "string option"
  hotfixPrefix :: "string option"
  supportPrefix :: "string option"
  versionTagPrefix :: "string option"

record GitFlowConfig =
  masterBranch :: string
  developBranch :: string
  featurePrefix :: string
  releasePrefix :: string
  hotfixPrefix :: string
  supportPrefix :: string
  versionTagPrefix :: string

definition DEFAULT_CONFIG :: GitFlowConfig where
  "DEFAULT_CONFIG = \<lparr>masterBranch = ''master'', developBranch = ''develop'',
     featurePrefix = ''feature/'', releasePrefix = ''release/'', hotfixPrefix = ''hotfix/'',
     supportPrefix = ''support/'', versionTagPrefix = []\<rparr>"

text \<open>
  The world \<open>'w\<close> in which the service runs: the repository root that getRepositoryRoot
  finds, \<^verbatim>\<open>fs.existsSync\<close>, and \<^verbatim>\<open>execFile('git', args, {cwd})\<close>, which gives
  the standard output or the message of the error, and the world after the command.
\<close>

record 'w gitHost =
  repositoryRoot :: "'w \<Rightarrow> path option"
  fileExists :: "path \<Rightarrow> 'w \<Rightarrow> bool"
  execFileGit :: "string list \<Rightarrow> path \<Rightarrow> 'w \<Rightarrow> (string + string) \<times> 'w"

text \<open>An asynchronous operation: it ends in a value or in a thrown error, and
  leaves a world.\<close>

type_synonym ('w, 'a) action = "'w \<Rightarrow> (gitFlowError + 'a) \<times> 'w"

definition succeed :: "'a \<Rightarrow> ('w, 'a) action" where
  "succeed x = (\<lambda>w. (Inr x, w))"

definition throw :: "gitFlowError \<Rightarrow> ('w, 'a) action" where
  "throw e = (\<lambda>w. (Inl e, w))"

definition andThen :: "('w, 'a) action \<Rightarrow> ('a \<Rightarrow> ('w, 'b) action) \<Rightarrow> ('w, 'b) action" where
  "andThen m f = (\<lambda>w. case m w of (Inl e, w') \<Rightarrow> (Inl e, w') | (Inr x, w') \<Rightarrow> f x w')"

definition catch :: "('w, 'a) action \<Rightarrow> (gitFlowError \<Rightarrow> ('w, 'a) action) \<Rightarrow> ('w, 'a) action" where
  "catch m handler = (\<lambda>w. case m w of (Inl e, w') \<Rightarrow> handler e w' | (Inr x, w') \<Rightarrow> (Inr x, w'))"

definition executeGitCommand :: "'w gitHost \<Rightarrow> string list \<Rightarrow> path \<Rightarrow> ('w, string) action" where
  "executeGitCommand h args cwd =
     (\<lambda>w. case execFileGit h args cwd w of
             (Inr stdout, w') \<Rightarrow> (Inr (trim stdout), w')
           | (Inl errorMessage, w') \<Rightarrow> (Inl (GitCommandFailed errorMessage), w'))"

definition isInitialized :: "'w gitHost \<Rightarrow> 'w \<Rightarrow> bool \<times> 'w" where
  "isInitialized h w =
     (case repositoryRoot h w of
        None \<Rightarrow> (False, w)
      | Some repoRoot \<Rightarrow>
          if \<not> fileExists h (repoRoot @ [''.git'', ''config'']) w then (False, w)
          else (case executeGitCommand h [''config'', ''--get'', ''gitflow.branch.master'']
                       repoRoot w of
                  (Inr configValue, w') \<Rightarrow> (configValue \<noteq> [], w')
                | (Inl _, w') \<Rightarrow> (False, w')))"

text \<open>\<^verbatim>\<open>{ ...DEFAULT_CONFIG, ...config }\<close>, the argument \<open>config\<close> of init being
  \<open>overrides\<close> here.\<close>

definition finalConfigOf :: "GitFlowConfigPartial \<Rightarrow> GitFlowConfig" where
  "finalConfigOf overrides =
     \<lparr>masterBranch = (case GitFlowConfigPartial.masterBranch overrides of
                         Some v \<Rightarrow> v | None \<Rightarrow> masterBranch DEFAULT_CONFIG),
      developBranch = (case GitFlowConfigPartial.developBranch overrides of
                         Some v \<Rightarrow> v | None \<Rightarrow> developBranch DEFAULT_CONFIG),
      featurePrefix = (case GitFlowConfigPartial.featurePrefix overrides of
                         Some v \<Rightarrow> v | None \<Rightarrow> featurePrefix DEFAULT_CONFIG),
      releasePrefix = (case GitFlowConfigPartial.releasePrefix overrides of
                         Some v \<Rightarrow> v | None \<Rightarrow> releasePrefix DEFAULT_CONFIG),
      hotfixPrefix = (case GitFlowConfigPartial.hotfixPrefix overrides of
                         Some v \<Rightarrow> v | None \<Rightarrow> hotfixPrefix DEFAULT_CONFIG),
      supportPrefix = (case GitFlowConfigPartial.supportPrefix overrides of
                         Some v \<Rightarrow> v | None \<Rightarrow> supportPrefix DEFAULT_CONFIG),
      versionTagPrefix = (case GitFlowConfigPartial.versionTagPrefix overrides of
                         Some v \<Rightarrow> v | None \<Rightarrow> versionTagPrefix DEFAULT_CONFIG)\<rparr>"

definition init :: "'w gitHost \<Rightarrow> GitFlowConfigPartial \<Rightarrow> ('w, GitFlowConfig) action" where
  "init h overrides =
     (\<lambda>w. case repositoryRoot h w of
        None \<Rightarrow> throw RepositoryNotFound w
      | Some repoRoot \<Rightarrow>
          (let finalConfig = finalConfigOf overrides in
           catch
             (andThen (executeGitCommand h
                 [''config'', ''gitflow.branch.master'', masterBranch finalConfig] repoRoot) (\<lambda>_.
              andThen (executeGitCommand h
                 [''config'', ''gitflow.branch.develop'', developBranch finalConfig] repoRoot) (\<lambda>_.
              andThen (executeGitCommand h
                 [''config'', ''gitflow.prefix.feature'', featurePrefix finalConfig] repoRoot) (\<lambda>_.
              andThen (executeGitCommand h
                 [''config'', ''gitflow.prefix.release'', releasePrefix finalConfig] repoRoot) (\<lambda>_.
              andThen (executeGitCommand h
                 [''config'', ''gitflow.prefix.hotfix'', hotfixPrefix finalConfig] repoRoot) (\<lambda>_.
              andThen (executeGitCommand h
                 [''config'', ''gitflow.prefix.support'', supportPrefix finalConfig] repoRoot) (\<lambda>_.
              andThen (executeGitCommand h
                 [''config'', ''gitflow.prefix.versiontag'', versionTagPrefix finalConfig] repoRoot) (\<lambda>_.
              andThen (executeGitCommand h [''branch'', ''--list''] repoRoot) (\<lambda>branches.
              andThen (if \<not> includesStr branches (developBranch finalConfig)
                       then executeGitCommand h
                              [''checkout'', ''-b'', developBranch finalConfig] repoRoot
                       else succeed []) (\<lambda>_.
              succeed finalConfig))))))))))
             (\<lambda>error. throw (InitFailed error))) w)"

definition startFeature :: "'w gitHost \<Rightarrow> string \<Rightarrow> ('w, unit) action" where
  "startFeature h featureName =
     (\<lambda>w. case repositoryRoot h w of
        None \<Rightarrow> throw RepositoryNotFound w
      | Some repoRoot \<Rightarrow>
          (case isInitialized h w of
             (False, w1) \<Rightarrow> throw NotInitialized w1
           | (True, w1) \<Rightarrow>
               andThen (executeGitCommand h
                  [''config'', ''--get'', ''gitflow.branch.develop''] repoRoot) (\<lambda>developBranch.
               andThen (executeGitCommand h
                  [''config'', ''--get'', ''gitflow.prefix.feature''] repoRoot) (\<lambda>featurePrefix.
               let branchName = featurePrefix @ featureName in
               catch
                 (andThen (executeGitCommand h [''checkout'', developBranch] repoRoot) (\<lambda>_.
                  andThen (catch (executeGitCommand h [''pull'', ''origin'', developBranch] repoRoot)
                             (\<lambda>_. succeed [])) (\<lambda>_.
                  andThen (executeGitCommand h [''checkout'', ''-b'', branchName] repoRoot) (\<lambda>_.
                  succeed ()))))
                 (\<lambda>error. throw (StartFailed Feature error)))) w1))"

definition finishFeature :: "'w gitHost \<Rightarrow> string \<Rightarrow> bool \<Rightarrow> ('w, unit) action" where
  "finishFeature h featureName keepBranch =
     (\<lambda>w. case repositoryRoot h w of
        None \<Rightarrow> throw RepositoryNotFound w
      | Some repoRoot \<Rightarrow>
          andThen (executeGitCommand h
             [''config'', ''--get'', ''gitflow.branch.develop''] repoRoot) (\<lambda>developBranch.
          andThen (executeGitCommand h
             [''config'', ''--get'', ''gitflow.prefix.feature''] repoRoot) (\<lambda>featurePrefix.
          let branchName = featurePrefix @ featureName in
          catch
            (andThen (executeGitCommand h [''checkout'', developBranch] repoRoot) (\<lambda>_.
             andThen (catch (executeGitCommand h [''pull'', ''origin'', developBranch] repoRoot)
                        (\<lambda>_. succeed [])) (\<lambda>_.
             andThen (executeGitCommand h [''merge'', ''--no-ff'', branchName] repoRoot) (\<lambda>_.
             andThen (if \<not> keepBranch
                      then executeGitCommand h [''branch'', ''-d'', branchName] repoRoot
                      else succeed []) (\<lambda>_.
             succeed ())))))
            (\<lambda>error. throw (FinishFailed Feature error)))) w)"

definition startRelease :: "'w gitHost \<Rightarrow> string \<Rightarrow> ('w, unit) action" where
  "startRelease h version =
     (\<lambda>w. case repositoryRoot h w of
        None \<Rightarrow> throw RepositoryNotFound w
      | Some repoRoot \<Rightarrow>
          (case isInitialized h w of
             (False, w1) \<Rightarrow> throw NotInitialized w1
           | (True, w1) \<Rightarrow>
               andThen (executeGitCommand h
                  [''config'', ''--get'', ''gitflow.branch.develop''] repoRoot) (\<lambda>developBranch.
               andThen (executeGitCommand h
                  [''config'', ''--get'', ''gitflow.prefix.release''] repoRoot) (\<lambda>releasePrefix.
               let branchName = releasePrefix @ version in
               catch
                 (andThen (executeGitCommand h [''checkout'', developBranch] repoRoot) (\<lambda>_.
                  andThen (catch (executeGitCommand h [''pull'', ''origin'', developBranch] repoRoot)
                             (\<lambda>_. succeed [])) (\<lambda>_.
                  andThen (executeGitCommand h [''checkout'', ''-b'', branchName] repoRoot) (\<lambda>_.
                  succeed ()))))
                 (\<lambda>error. throw (StartFailed Release error)))) w1))"

definition finishRelease :: "'w gitHost \<Rightarrow> string \<Rightarrow> bool \<Rightarrow> string option \<Rightarrow> ('w, unit) action" where
  "finishRelease h version keepBranch tagMessage =
     (\<lambda>w. case repositoryRoot h w of
        None \<Rightarrow> throw RepositoryNotFound w
      | Some repoRoot \<Rightarrow>
          andThen (executeGitCommand h
             [''config'', ''--get'', ''gitflow.branch.master''] repoRoot) (\<lambda>masterBranch.
          andThen (executeGitCommand h
             [''config'', ''--get'', ''gitflow.branch.develop''] repoRoot) (\<lambda>developBranch.
          andThen (executeGitCommand h
             [''config'', ''--get'', ''gitflow.prefix.release''] repoRoot) (\<lambda>releasePrefix.
          andThen (executeGitCommand h
             [''config'', ''--get'', ''gitflow.prefix.versiontag''] repoRoot) (\<lambda>versionTagPrefix.
          let branchName = releasePrefix @ version;
              tagName = versionTagPrefix @ version in
          catch
            (andThen (executeGitCommand h [''checkout'', masterBranch] repoRoot) (\<lambda>_.
             andThen (catch (executeGitCommand h [''pull'', ''origin'', masterBranch] repoRoot)
                        (\<lambda>_. succeed [])) (\<lambda>_.
             andThen (executeGitCommand h [''merge'', ''--no-ff'', branchName] repoRoot) (\<lambda>_.
             let tagMsg = (if truthy tagMessage then the tagMessage else ''Release '' @ version) in
             andThen (executeGitCommand h [''tag'', ''-a'', tagName, ''-m'', tagMsg] repoRoot) (\<lambda>_.
             andThen (executeGitCommand h [''checkout'', developBranch] repoRoot) (\<lambda>_.
             andThen (catch (executeGitCommand h [''pull'', ''origin'', developBranch] repoRoot)
                        (\<lambda>_. succeed [])) (\<lambda>_.
             andThen (executeGitCommand h [''merge'', ''--no-ff'', branchName] repoRoot) (\<lambda>_.
             andThen (if \<not> keepBranch
                      then executeGitCommand h [''branch'', ''-d'', branchName] repoRoot
                      else succeed []) (\<lambda>_.
             succeed ())))))))))
            (\<lambda>error. throw (FinishFailed Release error)))))) w)"

definition startHotfix :: "'w gitHost \<Rightarrow> string \<Rightarrow> ('w, unit) action" where
  "startHotfix h version =
     (\<lambda>w. case repositoryRoot h w of
        None \<Rightarrow> throw RepositoryNotFound w
      | Some repoRoot \<Rightarrow>
          (case isInitialized h w of
             (False, w1) \<Rightarrow> throw NotInitialized w1
           | (True, w1) \<Rightarrow>
               andThen (executeGitCommand h
                  [''config'', ''--get'', ''gitflow.branch.master''] repoRoot) (\<lambda>masterBranch.
               andThen (executeGitCommand h
                  [''config'', ''--get'', ''gitflow.prefix.hotfix''] repoRoot) (\<lambda>hotfixPrefix.
               let branchName = hotfixPrefix @ version in
               catch
                 (andThen (executeGitCommand h [''checkout'', masterBranch] repoRoot) (\<lambda>_.
                  andThen (catch (executeGitCommand h [''pull'', ''origin'', masterBranch] repoRoot)
                             (\<lambda>_. succeed [])) (\<lambda>_.
                  andThen (executeGitCommand h [''checkout'', ''-b'', branchName] repoRoot) (\<lambda>_.
                  succeed ()))))
                 (\<lambda>error. throw (StartFailed Hotfix error)))) w1))"

definition finishHotfix :: "'w gitHost \<Rightarrow> string \<Rightarrow> bool \<Rightarrow> string option \<Rightarrow> ('w, unit) action" where
  "finishHotfix h version keepBranch tagMessage =
     (\<lambda>w. case repositoryRoot h w of
        None \<Rightarrow> throw RepositoryNotFound w
      | Some repoRoot \<Rightarrow>
          andThen (executeGitCommand h
             [''config'', ''--get'', ''gitflow.branch.master''] repoRoot) (\<lambda>masterBranch.
          andThen (executeGitCommand h
             [''config'', ''--get'', ''gitflow.branch.develop''] repoRoot) (\<lambda>developBranch.
          andThen (executeGitCommand h
             [''config'', ''--get'', ''gitflow.prefix.hotfix''] repoRoot) (\<lambda>hotfixPrefix.
          andThen (executeGitCommand h
             [''config'', ''--get'', ''gitflow.prefix.versiontag''] repoRoot) (\<lambda>versionTagPrefix.
          let branchName = hotfixPrefix @ version;
              tagName = versionTagPrefix @ version in
          catch
            (andThen (executeGitCommand h [''checkout'', masterBranch] repoRoot) (\<lambda>_.
             andThen (catch (executeGitCommand h [''pull'', ''origin'', masterBranch] repoRoot)
                        (\<lambda>_. succeed [])) (\<lambda>_.
             andThen (executeGitCommand h [''merge'', ''--no-ff'', branchName] repoRoot) (\<lambda>_.
             let tagMsg = (if truthy tagMessage then the tagMessage else ''Hotfix '' @ version) in
             andThen (executeGitCommand h [''tag'', ''-a'', tagName, ''-m'', tagMsg] repoRoot) (\<lambda>_.
             andThen (executeGitCommand h [''checkout'', developBranch] repoRoot) (\<lambda>_.
             andThen (catch (executeGitCommand h [''pull'', ''origin'', developBranch] repoRoot)
                        (\<lambda>_. succeed [])) (\<lambda>_.
             andThen (executeGitCommand h [''merge'', ''--no-ff'', branchName] repoRoot) (\<lambda>_.
             andThen (if \<not> keepBranch
                      then executeGitCommand h [''branch'', ''-d'', branchName] repoRoot
                      else succeed []) (\<lambda>_.
             succeed ())))))))))
            (\<lambda>error. throw (FinishFailed Hotfix error)))))) w)"

definition getCurrentBranchType :: "'w gitHost \<Rightarrow> 'w \<Rightarrow> branchType option \<times> 'w" where
  "getCurrentBranchType h w =
     (case repositoryRoot h w of
        None \<Rightarrow> (None, w)
      | Some repoRoot \<Rightarrow>
          (case
             (andThen (executeGitCommand h [''rev-parse'', ''--abbrev-ref'', ''HEAD''] repoRoot)
                (\<lambda>currentBranch.
              andThen (catch (executeGitCommand h
                                [''config'', ''--get'', ''gitflow.prefix.feature''] repoRoot)
                         (\<lambda>_. succeed ''feature/'')) (\<lambda>featurePrefix.
              andThen (catch (executeGitCommand h
                                [''config'', ''--get'', ''gitflow.prefix.release''] repoRoot)
                         (\<lambda>_. succeed ''release/'')) (\<lambda>releasePrefix.
              andThen (catch (executeGitCommand h
                                [''config'', ''--get'', ''gitflow.prefix.hotfix''] repoRoot)
                         (\<lambda>_. succeed ''hotfix/'')) (\<lambda>hotfixPrefix.
              andThen (catch (executeGitCommand h
                                [''config'', ''--get'', ''gitflow.prefix.support''] repoRoot)
                         (\<lambda>_. succeed ''support/'')) (\<lambda>supportPrefix.
              succeed
                (if startsWith currentBranch featurePrefix then Some Feature
                 else if startsWith currentBranch releasePrefix then Some Release
                 else if startsWith currentBranch hotfixPrefix then Some Hotfix
                 else if startsWith currentBranch supportPrefix then Some Support
                 else None))))))) w
           of
             (Inr branchType, w') \<Rightarrow> (branchType, w')
           | (Inl _, w') \<Rightarrow> (None, w')))"

text \<open>A world that also records, in order, the arguments of every git command that
  executeGitCommand runs.\<close>

definition traced :: "'w gitHost \<Rightarrow> ('w \<times> string list list) gitHost" where
  "traced h =
     \<lparr>repositoryRoot = (\<lambda>(w, log). repositoryRoot h w),
      fileExists = (\<lambda>p (w, log). fileExists h p w),
      execFileGit = (\<lambda>args cwd (w, log).
         case execFileGit h args cwd w of (result, w') \<Rightarrow> (result, (w', log @ [args])))\<rparr>"

text \<open>A world in which a failing \<^verbatim>\<open>git pull\<close> reports success instead, with the
  state that the failed command left.\<close>

definition pullNeverFails :: "'w gitHost \<Rightarrow> 'w gitHost" where
  "pullNeverFails h =
     h\<lparr>execFileGit := (\<lambda>args cwd w.
          case execFileGit h args cwd w of
            (Inl errorMessage, w') \<Rightarrow>
              if args \<noteq> [] \<and> hd args = ''pull'' then (Inr [], w') else (Inl errorMessage, w')
          | (Inr stdout, w') \<Rightarrow> (Inr stdout, w'))\<rparr>"

section \<open>A model of the git commands that the service runs\<close>

text \<open>
  A commit is its identifier and its parents; \<open>reaches c a\<close> says that \<open>a\<close> is
  \<open>c\<close> or an ancestor of \<open>c\<close>. A repository holds its settings, its local
  branches and its annotated tags (commit and message), the branch that is checked out,
  whether the remote \<^verbatim>\<open>origin\<close> can be pulled from, the pairs of commits whose
  merge conflicts, and the identifier of the next commit.
\<close>

datatype commit = Commit nat "commit list"

fun reaches :: "commit \<Rightarrow> commit \<Rightarrow> bool" where
  "reaches (Commit n parents) a \<longleftrightarrow> Commit n parents = a \<or> (\<exists>p \<in> set parents. reaches p a)"

record repo =
  workTree :: "path option"
  settings :: "(string \<times> string) list"
  branches :: "(string \<times> commit) list"
  tags :: "(string \<times> commit \<times> string) list"
  head :: string
  originReachable :: bool
  conflicts :: "(commit \<times> commit) list"
  nextId :: nat

definition configGet :: "string \<Rightarrow> repo \<Rightarrow> (string + string) \<times> repo" where
  "configGet key r =
     (case map_of (settings r) key of
        Some v \<Rightarrow> (Inr (v @ [CHR 0x0A]), r)
      | None \<Rightarrow> (Inl ''Command failed: git config --get'', r))"

definition configSet :: "string \<Rightarrow> string \<Rightarrow> repo \<Rightarrow> (string + string) \<times> repo" where
  "configSet key v r = (Inr [], r\<lparr>settings := AList.update key v (settings r)\<rparr>)"

text \<open>\<^verbatim>\<open>git branch --list\<close>: one line for each local branch, the current one
  marked with an asterisk.\<close>

definition branchListing :: "repo \<Rightarrow> string" where
  "branchListing r =
     concat (map (\<lambda>(name, tip). (if name = head r then ''* '' else ''  '') @ name @ [CHR 0x0A])
               (branches r))"

definition checkoutBranch :: "string \<Rightarrow> repo \<Rightarrow> (string + string) \<times> repo" where
  "checkoutBranch b r =
     (if map_of (branches r) b \<noteq> None then (Inr [], r\<lparr>head := b\<rparr>)
      else (Inl ''error: pathspec did not match any file(s) known to git'', r))"

definition createBranch :: "string \<Rightarrow> repo \<Rightarrow> (string + string) \<times> repo" where
  "createBranch b r =
     (if b = [] then (Inl ''fatal: not a valid branch name'', r)
      else if map_of (branches r) b \<noteq> None then (Inl ''fatal: a branch with that name already exists'', r)
      else (case map_of (branches r) (head r) of
              Some tip \<Rightarrow> (Inr [], r\<lparr>branches := branches r @ [(b, tip)], head := b\<rparr>)
            | None \<Rightarrow> (Inr [], r\<lparr>head := b\<rparr>)))"

text \<open>\<^verbatim>\<open>git pull origin\<close> fails when the remote cannot be reached; a pull that
  succeeds finds nothing new.\<close>

definition pull :: "string \<Rightarrow> repo \<Rightarrow> (string + string) \<times> repo" where
  "pull b r =
     (if originReachable r then (Inr (''Already up to date.'' @ [CHR 0x0A]), r)
      else (Inl ''fatal: origin does not appear to be a git repository'', r))"

text \<open>\<^verbatim>\<open>git merge --no-ff\<close>: nothing to do when the branch is merged already, a
  failure on a conflict, and otherwise a merge commit, also where a fast-forward was
  possible.\<close>

definition mergeNoFf :: "string \<Rightarrow> repo \<Rightarrow> (string + string) \<times> repo" where
  "mergeNoFf b r =
     (case map_of (branches r) b of
        None \<Rightarrow> (Inl ''merge: not something we can merge'', r)
      | Some theirs \<Rightarrow>
          (case map_of (branches r) (head r) of
             None \<Rightarrow> (Inl ''fatal: no commit on the current branch'', r)
           | Some ours \<Rightarrow>
               if reaches ours theirs then (Inr (''Already up to date.'' @ [CHR 0x0A]), r)
               else if (ours, theirs) \<in> set (conflicts r)
                 then (Inl ''CONFLICT: Automatic merge failed'', r)
               else (Inr (''Merge made.'' @ [CHR 0x0A]),
                     r\<lparr>branches := AList.update (head r) (Commit (nextId r) [ours, theirs])
                                       (branches r),
                       nextId := Suc (nextId r)\<rparr>)))"

definition createTag :: "string \<Rightarrow> string \<Rightarrow> repo \<Rightarrow> (string + string) \<times> repo" where
  "createTag t message r =
     (if t = [] then (Inl ''fatal: not a valid tag name'', r)
      else if map_of (tags r) t \<noteq> None then (Inl ''fatal: tag already exists'', r)
      else (case map_of (branches r) (head r) of
              None \<Rightarrow> (Inl ''fatal: failed to resolve HEAD as a valid ref'', r)
            | Some tip \<Rightarrow> (Inr [], r\<lparr>tags := tags r @ [(t, tip, message)]\<rparr>)))"

text \<open>\<^verbatim>\<open>git branch -d\<close> refuses the branch that is checked out and a branch that
  is not merged into HEAD.\<close>

definition deleteBranch :: "string \<Rightarrow> repo \<Rightarrow> (string + string) \<times> repo" where
  "deleteBranch b r =
     (case map_of (branches r) b of
        None \<Rightarrow> (Inl ''error: branch not found'', r)
      | Some tip \<Rightarrow>
          if b = head r then (Inl ''error: cannot delete the branch that is checked out'', r)
          else (case map_of (branches r) (head r) of
                  None \<Rightarrow> (Inl ''error: the branch is not fully merged'', r)
                | Some ours \<Rightarrow>
                    if reaches ours tip
                    then (Inr (''Deleted branch.'' @ [CHR 0x0A]),
                          r\<lparr>branches := AList.delete b (branches r)\<rparr>)
                    else (Inl ''error: the branch is not fully merged'', r)))"

definition simExec :: "string list \<Rightarrow> path \<Rightarrow> repo \<Rightarrow> (string + string) \<times> repo" where
  "simExec args cwd r =
     (if workTree r \<noteq> Some cwd then (Inl ''fatal: not a git repository'', r)
      else
        (case args of
           [a, b] \<Rightarrow>
             if a = ''branch'' \<and> b = ''--list'' then (Inr (branchListing r), r)
             else if a = ''checkout'' then checkoutBranch b r
             else (Inl ''git: unknown command'', r)
         | [a, b, c] \<Rightarrow>
             if a = ''config'' \<and> b = ''--get'' then configGet c r
             else if a = ''config'' then configSet b c r
             else if a = ''checkout'' \<and> b = ''-b'' then createBranch c r
             else if a = ''pull'' \<and> b = ''origin'' then pull c r
             else if a = ''merge'' \<and> b = ''--no-ff'' then mergeNoFf c r
             else if a = ''branch'' \<and> b = ''-d'' then deleteBranch c r
             else if a = ''rev-parse'' \<and> b = ''--abbrev-ref'' \<and> c = ''HEAD''
               then (Inr (head r @ [CHR 0x0A]), r)
             else (Inl ''git: unknown command'', r)
         | [a, b, c, d, e] \<Rightarrow>
             if a = ''tag'' \<and> b = ''-a'' \<and> d = ''-m'' then createTag c e r
             else (Inl ''git: unknown command'', r)
         | _ \<Rightarrow> (Inl ''git: unknown command'', r)))"

definition simGit :: "repo gitHost" where
  "simGit =
     \<lparr>repositoryRoot = workTree,
      fileExists = (\<lambda>p r. case workTree r of
                             Some root \<Rightarrow> p = root @ [''.git'', ''config'']
                           | None \<Rightarrow> False),
      execFileGit = simExec\<rparr>"

text \<open>The settings that init writes for the default configuration.\<close>

definition defaultSettings :: "(string \<times> string) list" where
  "defaultSettings =
     [(''gitflow.branch.master'', ''master''), (''gitflow.branch.develop'', ''develop''),
      (''gitflow.prefix.feature'', ''feature/''), (''gitflow.prefix.release'', ''release/''),
      (''gitflow.prefix.hotfix'', ''hotfix/''), (''gitflow.prefix.support'', ''support/''),
      (''gitflow.prefix.versiontag'', [])]"

definition noOverrides :: GitFlowConfigPartial where
  "noOverrides = \<lparr>GitFlowConfigPartial.masterBranch = None, developBranch = None,
     featurePrefix = None, releasePrefix = None, hotfixPrefix = None, supportPrefix = None,
     versionTagPrefix = None\<rparr>"

text \<open>
  Sample repositories, none of them with a remote. \<open>freshRepo\<close> has one commit on
  \<open>master\<close> and no settings. \<open>busyRepo\<close> is the same with a second branch,
  \<open>feature/develop-ui\<close>. \<open>flowRepo\<close> is initialized: \<open>develop\<close> is one commit
  ahead of \<open>master\<close>, and a feature, a release and a hotfix branch carry one commit
  each; \<open>release/1.0.0\<close> is checked out.
\<close>

definition freshRepo :: repo where
  "freshRepo = \<lparr>workTree = Some [''repo''], settings = [],
     branches = [(''master'', Commit 0 [])], tags = [], head = ''master'',
     originReachable = False, conflicts = [], nextId = 1\<rparr>"

definition busyRepo :: repo where
  "busyRepo = freshRepo\<lparr>branches := [(''feature/develop-ui'', Commit 0 []),
     (''master'', Commit 0 [])]\<rparr>"

definition flowRepo :: repo where
  "flowRepo = \<lparr>workTree = Some [''repo''], settings = defaultSettings,
     branches = [(''master'', Commit 0 []),
                 (''develop'', Commit 1 [Commit 0 []]),
                 (''feature/login'', Commit 2 [Commit 1 [Commit 0 []]]),
                 (''release/1.0.0'', Commit 3 [Commit 1 [Commit 0 []]]),
                 (''hotfix/1.0.1'', Commit 4 [Commit 0 []])],
     tags = [], head = ''release/1.0.0'',
     originReachable = False, conflicts = [], nextId = 5\<rparr>"

text \<open>A repository whose only branch, checked out, has the given name.\<close>

definition onBranch :: "string \<Rightarrow> repo" where
  "onBranch name = freshRepo\<lparr>branches := [(name, Commit 0 [])], head := name\<rparr>"

text \<open>The prefix that getCurrentBranchType takes for a role: the trimmed output of
  \<^verbatim>\<open>git config --get\<close> for the key, and the default when the command fails.\<close>

definition configuredPrefix :: "'w gitHost \<Rightarrow> path \<Rightarrow> 'w \<Rightarrow> string \<Rightarrow> string \<Rightarrow> string" where
  "configuredPrefix h repoRoot w key fallback =
     (case fst (execFileGit h [''config'', ''--get'', key] repoRoot w) of
        Inr stdout \<Rightarrow> trim stdout
      | Inl _ \<Rightarrow> fallback)"

text \<open>What executeGitCommand returns in the traced model, from what the command
  returned: the trimmed output or the wrapped error, the repository after the command,
  and the log with the command added.\<close>

definition afterCommand :: "string list \<Rightarrow> string list list \<Rightarrow> (string + string) \<times> repo
    \<Rightarrow> (gitFlowError + string) \<times> repo \<times> string list list" where
  "afterCommand args log outcome =
     (case outcome of
        (Inr stdout, r') \<Rightarrow> (Inr (trim stdout), r', log @ [args])
      | (Inl errorMessage, r') \<Rightarrow> (Inl (GitCommandFailed errorMessage), r', log @ [args]))"

section \<open>Properties of the template substitution\<close>

lemma getSubstitution_plain:
  "CHR ''$'' \<notin> set repl \<Longrightarrow> getSubstitution matched pre post repl = repl"
  by (induction matched pre post repl rule: getSubstitution.induct) auto

lemma replaceFrom_skip:
  "CHR ''<'' \<notin> set u \<Longrightarrow> replaceFrom (CHR ''<'' # w) repl pre (u @ s)
     = u @ replaceFrom (CHR ''<'' # w) repl (pre @ u) s"
  by (induction u arbitrary: pre) auto

lemma replaceFrom_no_lt:
  "CHR ''<'' \<notin> set s \<Longrightarrow> replaceFrom (CHR ''<'' # w) repl pre s = s"
  using replaceFrom_skip [of s w repl pre "[]"] by simp

lemma placeholdersOnly_append_plain:
  "CHR ''<'' \<notin> set u \<Longrightarrow> placeholdersOnly T (u @ s) = placeholdersOnly T s"
  by (induction u) auto

lemma placeholdersOnly_drop:
  "placeholdersOnly T s \<Longrightarrow> placeholdersOnly T (drop n s)"
  by (induction s arbitrary: n) (auto simp: drop_Cons split: nat.splits)

lemma placeholdersOnly_Nil: "placeholdersOnly [] s \<longleftrightarrow> CHR ''<'' \<notin> set s"
  by (induction s) auto

lemma replaceFrom_placeholdersOnly:
  assumes "placeholdersOnly T s"
    and "CHR ''<'' \<notin> set repl" and "CHR ''$'' \<notin> set repl"
    and "\<forall>t \<in> set T. isToken t"
    and "set T - {CHR ''<'' # w} \<subseteq> set T'"
  shows "placeholdersOnly T' (replaceFrom (CHR ''<'' # w) repl pre s)"
  using assms(1-3)
proof (induction "CHR ''<'' # w" repl pre s rule: replaceFrom.induct)
  case (1 repl pre)
  then show ?case by simp
next
  case (2 repl pre c cs)
  note wf = "2.prems"(1) and lt = "2.prems"(2) and dollar = "2.prems"(3)
  show ?case
  proof (cases "prefix (CHR ''<'' # w) (c # cs)")
    case True
    have "placeholdersOnly T (drop (length (CHR ''<'' # w) - 1) cs)"
      using wf placeholdersOnly_drop by auto
    with "2.hyps"(1) True lt dollar
    have ih: "placeholdersOnly T' (replaceFrom (CHR ''<'' # w) repl (pre @ CHR ''<'' # w)
                 (drop (length (CHR ''<'' # w) - 1) cs))"
      by simp
    have "replaceFrom (CHR ''<'' # w) repl pre (c # cs)
            = repl @ replaceFrom (CHR ''<'' # w) repl (pre @ CHR ''<'' # w)
                 (drop (length (CHR ''<'' # w) - 1) cs)"
      using True by (simp add: getSubstitution_plain [OF dollar])
    then show ?thesis
      using ih placeholdersOnly_append_plain [OF lt] by simp
  next
    case False
    have tl: "placeholdersOnly T' (replaceFrom (CHR ''<'' # w) repl (pre @ [c]) cs)"
      using "2.hyps"(2) False wf lt dollar by simp
    show ?thesis
    proof (cases "c = CHR ''<''")
      case c: True
      then obtain t where t: "t \<in> set T" "prefix t (c # cs)" using wf by auto
      with False c have "t \<noteq> CHR ''<'' # w" by auto
      with t assms(5) have t': "t \<in> set T'" by auto
      from t assms(4) obtain v where v: "t = CHR ''<'' # v" "CHR ''<'' \<notin> set v"
        by (auto simp: isToken_def)
      with t(2) obtain r where "cs = v @ r" by (auto simp: prefix_def)
      then have "prefix v (replaceFrom (CHR ''<'' # w) repl (pre @ [c]) cs)"
        using replaceFrom_skip [OF v(2)] by simp
      then have "prefix t (c # replaceFrom (CHR ''<'' # w) repl (pre @ [c]) cs)"
        using v c by simp
      then show ?thesis using False tl t' by auto
    next
      case False2: False
      then show ?thesis using False tl by simp
    qed
  qed
qed

lemma replaceAll_no_lt:
  "CHR ''<'' \<notin> set s \<Longrightarrow> replaceAll (CHR ''<'' # w) repl s = s"
  by (simp add: replaceAll_def replaceFrom_no_lt)

lemma pass_eq: "(if v \<noteq> [] then replaceAll p v s else replaceAll p [] s) = replaceAll p v s"
  by simp

lemma substitute_chain:
  "substitute isShowEmoji msg template =
     replaceAll ''<space>'' '' ''
      (replaceAll ''<enter>'' [CHR 0x0A, CHR 0x0A]
        (replaceAll ''<footer>'' (footer msg)
          (replaceAll ''<body>'' (body msg)
            (replaceAll ''<subject>'' (subject msg)
              (replaceAll ''<scope>'' (scope msg)
                (replaceAll ''<type>'' (type msg)
                  (replaceAll ''<icon>'' (if isShowEmoji then icon msg else []) template)))))))"
  unfolding substitute_def Let_def pass_eq by simp

lemma substitute_no_lt_fixed:
  "CHR ''<'' \<notin> set s \<Longrightarrow> substitute isShowEmoji msg s = s"
  unfolding substitute_chain by (simp add: replaceAll_no_lt)

lemma sublist_set: "sublist p s \<Longrightarrow> set p \<subseteq> set s"
  by (auto simp: sublist_def)

lemma set_trim: "set (trim s) \<subseteq> set s"
  unfolding trim_def
  by (metis (no_types, lifting) set_dropWhileD set_rev subsetI)

lemma substitute_no_lt:
  assumes "placeholdersOnly placeholders template"
    and "isShowEmoji \<longrightarrow> CHR ''<'' \<notin> set (icon msg) \<and> CHR ''$'' \<notin> set (icon msg)"
    and "CHR ''<'' \<notin> set (type msg) \<and> CHR ''$'' \<notin> set (type msg)"
    and "CHR ''<'' \<notin> set (scope msg) \<and> CHR ''$'' \<notin> set (scope msg)"
    and "CHR ''<'' \<notin> set (subject msg) \<and> CHR ''$'' \<notin> set (subject msg)"
    and "CHR ''<'' \<notin> set (body msg) \<and> CHR ''$'' \<notin> set (body msg)"
    and "CHR ''<'' \<notin> set (footer msg) \<and> CHR ''$'' \<notin> set (footer msg)"
  shows "CHR ''<'' \<notin> set (substitute isShowEmoji msg template)"
proof -
  define T0 where "T0 = placeholders"
  define r1 where "r1 = replaceAll ''<icon>'' (if isShowEmoji then icon msg else []) template"
  define r2 where "r2 = replaceAll ''<type>'' (type msg) r1"
  define r3 where "r3 = replaceAll ''<scope>'' (scope msg) r2"
  define r4 where "r4 = replaceAll ''<subject>'' (subject msg) r3"
  define r5 where "r5 = replaceAll ''<body>'' (body msg) r4"
  define r6 where "r6 = replaceAll ''<footer>'' (footer msg) r5"
  define r7 where "r7 = replaceAll ''<enter>'' [CHR 0x0A, CHR 0x0A] r6"
  define r8 where "r8 = replaceAll ''<space>'' '' '' r7"
  have eq: "substitute isShowEmoji msg template = r8"
    by (simp only: substitute_chain r1_def r2_def r3_def r4_def r5_def r6_def r7_def r8_def)
  have tok: "\<forall>t \<in> set placeholders. isToken t"
    by (simp add: placeholders_def isToken_def)
  have p1: "placeholdersOnly (tl placeholders) r1"
    unfolding r1_def replaceAll_def
    by (rule replaceFrom_placeholdersOnly [OF assms(1) _ _ tok])
       (use assms(2) in \<open>auto simp: placeholders_def\<close>)
  have p2: "placeholdersOnly (drop 2 placeholders) r2"
    unfolding r2_def replaceAll_def
    by (rule replaceFrom_placeholdersOnly [OF p1])
       (use assms(3) in \<open>auto simp: placeholders_def isToken_def\<close>)
  have p3: "placeholdersOnly (drop 3 placeholders) r3"
    unfolding r3_def replaceAll_def
    by (rule replaceFrom_placeholdersOnly [OF p2])
       (use assms(4) in \<open>auto simp: placeholders_def isToken_def\<close>)
  have p4: "placeholdersOnly (drop 4 placeholders) r4"
    unfolding r4_def replaceAll_def
    by (rule replaceFrom_placeholdersOnly [OF p3])
       (use assms(5) in \<open>auto simp: placeholders_def isToken_def\<close>)
  have p5: "placeholdersOnly (drop 5 placeholders) r5"
    unfolding r5_def replaceAll_def
    by (rule replaceFrom_placeholdersOnly [OF p4])
       (use assms(6) in \<open>auto simp: placeholders_def isToken_def\<close>)
  have p6: "placeholdersOnly (drop 6 placeholders) r6"
    unfolding r6_def replaceAll_def
    by (rule replaceFrom_placeholdersOnly [OF p5])
       (use assms(7) in \<open>auto simp: placeholders_def isToken_def\<close>)
  have p7: "placeholdersOnly (drop 7 placeholders) r7"
    unfolding r7_def replaceAll_def
    by (rule replaceFrom_placeholdersOnly [OF p6])
       (auto simp: placeholders_def isToken_def)
  have p8: "placeholdersOnly [] r8"
    unfolding r8_def replaceAll_def
    by (rule replaceFrom_placeholdersOnly [OF p7])
       (auto simp: placeholders_def isToken_def)
  then show ?thesis using eq by (simp add: placeholdersOnly_Nil)
qed


lemma trim_idem: "trim (trim s) = trim s"
proof -
  define P where "P = isWhiteSpace"
  define a where "a = dropWhile P s"
  define b where "b = dropWhile P (rev a)"
  have b: "dropWhile P b = b" by (simp add: b_def)
  have "dropWhile P (rev b) = rev b"
  proof (cases "b = []")
    case True then show ?thesis by simp
  next
    case False
    then have "rev b \<noteq> []" by simp
    have "\<exists>k. rev b = take k a"
      unfolding b_def
      by (metis rev_swap takeWhile_dropWhile_id append_eq_conv_conj rev_append)
    then obtain k where k: "rev b = take k a" by blast
    with \<open>rev b \<noteq> []\<close> have "take k a \<noteq> []" by simp
    then have "a \<noteq> []" "k \<noteq> 0" by auto
    then have "hd (rev b) = hd a" using k by (cases a; cases k) auto
    moreover have "\<not> P (hd a)" using \<open>a \<noteq> []\<close> unfolding a_def by (rule hd_dropWhile)
    ultimately show ?thesis using \<open>rev b \<noteq> []\<close> by (cases "rev b") auto
  qed
  then show ?thesis
    by (simp add: trim_def P_def [symmetric] a_def [symmetric] b_def [symmetric] b)
qed


text \<open>
  C4 (as amended). When every opening angle bracket of the template starts a
  placeholder, and neither an inserted field value nor the appended version text
  contains an opening angle bracket, and no inserted field value contains a dollar
  sign, the rendered commit message contains none of the eight placeholder tokens.
\<close>

theorem messageCombine_no_placeholder:
  assumes "placeholdersOnly placeholders (templateContent msg)"
    and "\<forall>v \<in> set (insertedValues isShowEmoji msg).
           CHR ''<'' \<notin> set v \<and> CHR ''$'' \<notin> set v"
    and "CHR ''<'' \<notin> set versionInfo"
  shows "\<forall>tok \<in> set placeholders.
           \<not> includesStr (messageCombine isShowEmoji versionInfo msg) tok"
proof -
  have "CHR ''<'' \<notin> set (substitute isShowEmoji msg (templateContent msg))"
    by (rule substitute_no_lt [OF assms(1)]) (use assms(2) in \<open>auto simp: insertedValues_def\<close>)
  then have "CHR ''<'' \<notin> set (messageCombine isShowEmoji versionInfo msg)"
    using assms(3) unfolding messageCombine_def Let_def
    by (auto split: if_splits dest!: subsetD [OF set_trim])
  moreover have "\<forall>tok \<in> set placeholders. CHR ''<'' \<in> set tok"
    by (simp add: placeholders_def)
  ultimately show ?thesis
    unfolding includesStr_def by (blast dest: sublist_set)
qed

theorem messageCombine_no_placeholder_witness:
  "placeholdersOnly placeholders (templateContent angularExample)
   \<and> list_all (\<lambda>v. CHR ''<'' \<notin> set v \<and> CHR ''$'' \<notin> set v)
         (insertedValues True angularExample)
   \<and> CHR ''<'' \<notin> set ''v: 1.0''
   \<and> messageCombine True ''v: 1.0'' angularExample
       = ''* feat(ui): add login'' @ [CHR 0x0A, CHR 0x0A] @ ''first line''
           @ [CHR 0x0A, CHR 0x0A, CHR 0x0A, CHR 0x0A] @ ''v: 1.0''
   \<and> list_all (\<lambda>tok. \<not> includesStr (messageCombine True ''v: 1.0'' angularExample) tok)
         placeholders"
proof -
  have h1: "placeholdersOnly placeholders (templateContent angularExample)"
    by code_simp
  have h2: "\<forall>v \<in> set (insertedValues True angularExample).
              CHR ''<'' \<notin> set v \<and> CHR ''$'' \<notin> set v"
    by code_simp
  have h3: "CHR ''<'' \<notin> set ''v: 1.0''"
    by simp
  have h4: "messageCombine True ''v: 1.0'' angularExample
       = ''* feat(ui): add login'' @ [CHR 0x0A, CHR 0x0A] @ ''first line''
           @ [CHR 0x0A, CHR 0x0A, CHR 0x0A, CHR 0x0A] @ ''v: 1.0''"
    by code_simp
  show ?thesis
    using messageCombine_no_placeholder [OF h1 h2 h3] h1 h2 h3 h4
    unfolding list_all_iff by blast
qed

text \<open>
  C4 as stated fails: with the template \<open><subject>\<close> and the subject
  \<open><icon>\<close> the rendered message is the placeholder token \<open><icon>\<close>, since
  the icon pass has run before the subject is inserted.
\<close>

theorem messageCombine_placeholder_counterexample:
  "''<icon>'' \<in> set placeholders
   \<and> messageCombine True [] subjectNamesIcon = ''<icon>''
   \<and> includesStr (messageCombine True [] subjectNamesIcon) ''<icon>''"
  by code_simp

text \<open>
  C5 (as amended). Under the conditions of C4 the rendered message holds no opening
  angle bracket, so the eight replacement passes applied to it again leave it
  unchanged, and so does rendering it again as a template with no version text.
\<close>

theorem substitute_rendered_unchanged:
  assumes "placeholdersOnly placeholders (templateContent msg)"
    and "\<forall>v \<in> set (insertedValues isShowEmoji msg).
           CHR ''<'' \<notin> set v \<and> CHR ''$'' \<notin> set v"
    and "CHR ''<'' \<notin> set versionInfo"
  shows "substitute isShowEmoji msg (messageCombine isShowEmoji versionInfo msg)
           = messageCombine isShowEmoji versionInfo msg
         \<and> messageCombine isShowEmoji []
             (msg\<lparr>templateContent := messageCombine isShowEmoji versionInfo msg\<rparr>)
           = messageCombine isShowEmoji versionInfo msg"
proof -
  define out where "out = messageCombine isShowEmoji versionInfo msg"
  have "CHR ''<'' \<notin> set (substitute isShowEmoji msg (templateContent msg))"
    by (rule substitute_no_lt [OF assms(1)]) (use assms(2) in \<open>auto simp: insertedValues_def\<close>)
  then have nolt: "CHR ''<'' \<notin> set out"
    using assms(3) unfolding out_def messageCombine_def Let_def
    by (auto split: if_splits dest!: subsetD [OF set_trim])
  have same: "substitute e c out = out" for e c
    using nolt by (rule substitute_no_lt_fixed)
  have "trim out = out"
    unfolding out_def messageCombine_def Let_def by (rule trim_idem)
  then have "messageCombine isShowEmoji [] (msg\<lparr>templateContent := out\<rparr>) = out"
    by (simp add: messageCombine_def same)
  then show ?thesis using same unfolding out_def by simp
qed

theorem substitute_rendered_unchanged_witness:
  "placeholdersOnly placeholders (templateContent angularExample)
   \<and> list_all (\<lambda>v. CHR ''<'' \<notin> set v \<and> CHR ''$'' \<notin> set v)
         (insertedValues True angularExample)
   \<and> CHR ''<'' \<notin> set ''v: 1.0''
   \<and> substitute True angularExample (messageCombine True ''v: 1.0'' angularExample)
       = messageCombine True ''v: 1.0'' angularExample
   \<and> messageCombine True []
         (angularExample\<lparr>templateContent := messageCombine True ''v: 1.0'' angularExample\<rparr>)
       = messageCombine True ''v: 1.0'' angularExample"
proof -
  have h1: "placeholdersOnly placeholders (templateContent angularExample)"
    by code_simp
  have h2: "\<forall>v \<in> set (insertedValues True angularExample).
              CHR ''<'' \<notin> set v \<and> CHR ''$'' \<notin> set v"
    by code_simp
  have h3: "CHR ''<'' \<notin> set ''v: 1.0''"
    by simp
  show ?thesis
    using substitute_rendered_unchanged [OF h1 h2 h3] h1 h2 h3
    unfolding list_all_iff by blast
qed

text \<open>
  C5 as stated fails: with the template \<open><subject>\<close>, the subject
  \<open><type>\<close> and the type \<open>feat\<close>, the rendered message is \<open><type>\<close>, and
  the passes applied to it again give \<open>feat\<close>.
\<close>

theorem substitute_rendered_counterexample:
  "messageCombine True [] subjectNamesType = ''<type>''
   \<and> substitute True subjectNamesType (messageCombine True [] subjectNamesType) = ''feat''
   \<and> substitute True subjectNamesType (messageCombine True [] subjectNamesType)
       \<noteq> messageCombine True [] subjectNamesType"
  by code_simp


section \<open>Properties of the version resolution\<close>

lemma getProjectVersion_nonempty:
  "getProjectVersion h startPath projectNameArg = Some v \<Longrightarrow> v \<noteq> []"
  by (auto simp: getProjectVersion_def split: option.splits if_splits)

lemma getProjectConfig_first:
  assumes "readConfig h configFileRoot = Some configFile"
    and "config configFile = Some (first # others)"
    and "\<not> truthy projectNameArg"
  shows "getProjectConfig h configFileRoot projectNameArg = Some first"
  using assms by (simp add: getProjectConfig_def)

text \<open>
  C1 (as amended). For a configuration with a non-empty \<open>config\<close> array and no
  project name given, the configuration step selects the first project of the array:
  getProjectConfig returns it; getProjectVersion returns the version read from that
  project's file when the read gives a non-empty version, and getCurrentVersion then
  returns it without consulting the tags; getProjectVersion returns null when the read
  gives none, and tries no other project. It is getVersionInfo that yields no version
  text for every such configuration when the project name is undefined, whether the
  first project's version can be read or not.
\<close>

theorem multi_project_without_name:
  assumes "findProjectRoot h startPath = Some configFileRoot"
    and "readConfig h configFileRoot = Some configFile"
    and "config configFile = Some (first # others)"
    and "\<not> truthy projectNameArg"
  shows "getProjectConfig h configFileRoot projectNameArg = Some first
       \<and> (GitCommitProjectConfig.path first \<noteq> []
            \<and> GitCommitProjectConfig.versionRegex first \<noteq> []
            \<and> readVersionFromFile h configFileRoot (GitCommitProjectConfig.path first)
                  (GitCommitProjectConfig.versionRegex first) = Some v
            \<and> v \<noteq> []
          \<longrightarrow> getProjectVersion h startPath projectNameArg = Some v
              \<and> getCurrentVersion h projectRoot (Some startPath) projectNameArg = Inr v)
       \<and> (GitCommitProjectConfig.path first = []
            \<or> GitCommitProjectConfig.versionRegex first = []
            \<or> readVersionFromFile h configFileRoot (GitCommitProjectConfig.path first)
                  (GitCommitProjectConfig.versionRegex first) = None
            \<or> readVersionFromFile h configFileRoot (GitCommitProjectConfig.path first)
                  (GitCommitProjectConfig.versionRegex first) = Some []
          \<longrightarrow> getProjectVersion h startPath projectNameArg = None)
       \<and> (projectNameArg = None \<longrightarrow>
            getVersionInfo h projectRoot (Some startPath) projectNameArg = [])"
proof -
  have c: "getProjectConfig h configFileRoot projectNameArg = Some first"
    using assms(2-4) by (rule getProjectConfig_first)
  have v: "getProjectVersion h startPath projectNameArg = Some v"
    if "GitCommitProjectConfig.path first \<noteq> []"
      and "GitCommitProjectConfig.versionRegex first \<noteq> []"
      and "readVersionFromFile h configFileRoot (GitCommitProjectConfig.path first)
             (GitCommitProjectConfig.versionRegex first) = Some v"
      and "v \<noteq> []"
    using assms(1) c that by (simp add: getProjectVersion_def)
  have cur: "getCurrentVersion h projectRoot (Some startPath) projectNameArg = Inr v"
    if "getProjectVersion h startPath projectNameArg = Some v" and "v \<noteq> []"
    using that by (simp add: getCurrentVersion_def truthy_def)
  have n: "getProjectVersion h startPath projectNameArg = None"
    if "GitCommitProjectConfig.path first = []
        \<or> GitCommitProjectConfig.versionRegex first = []
        \<or> readVersionFromFile h configFileRoot (GitCommitProjectConfig.path first)
              (GitCommitProjectConfig.versionRegex first) = None
        \<or> readVersionFromFile h configFileRoot (GitCommitProjectConfig.path first)
              (GitCommitProjectConfig.versionRegex first) = Some []"
    using assms(1) c that by (auto simp: getProjectVersion_def)
  have "multiProjectUnselected h (Some startPath) None"
    using assms(1-3) by (simp add: multiProjectUnselected_def)
  then have i: "projectNameArg = None \<longrightarrow>
      getVersionInfo h projectRoot (Some startPath) projectNameArg = []"
    by (simp add: getVersionInfo_def)
  show ?thesis
    using c v cur n i by blast
qed

theorem multi_project_without_name_witness:
  "findProjectRoot taggedHost [''mono'', ''web'', ''src'', ''main.ts''] = Some [''mono'']
   \<and> readConfig taggedHost [''mono''] = Some multiConfigFile
   \<and> config multiConfigFile = Some [apiProject, webProject]
   \<and> \<not> truthy None
   \<and> readVersionFromFile taggedHost [''mono''] (GitCommitProjectConfig.path apiProject)
        (GitCommitProjectConfig.versionRegex apiProject) = Some ''1.2.3''
   \<and> getProjectConfig taggedHost [''mono''] None = Some apiProject
   \<and> getProjectVersion taggedHost [''mono'', ''web'', ''src'', ''main.ts''] None = Some ''1.2.3''
   \<and> getCurrentVersion taggedHost [''mono''] (Some [''mono'', ''web'', ''src'', ''main.ts'']) None
       = Inr ''1.2.3''
   \<and> getVersionInfo taggedHost [''mono''] (Some [''mono'', ''web'', ''src'', ''main.ts'']) None = []
   \<and> findProjectRoot taggedHost [''lost'', ''web'', ''main.ts''] = Some [''lost'']
   \<and> readConfig taggedHost [''lost''] = Some multiConfigFile
   \<and> readVersionFromFile taggedHost [''lost''] (GitCommitProjectConfig.path apiProject)
        (GitCommitProjectConfig.versionRegex apiProject) = None
   \<and> getProjectVersion taggedHost [''lost'', ''web'', ''main.ts''] None = None
   \<and> getVersionInfo taggedHost [''lost''] (Some [''lost'', ''web'', ''main.ts'']) None = []"
proof -
  have f: "findProjectRoot taggedHost [''mono'', ''web'', ''src'', ''main.ts''] = Some [''mono'']"
    by code_simp
  have r: "readConfig taggedHost [''mono''] = Some multiConfigFile"
    by code_simp
  have f': "findProjectRoot taggedHost [''lost'', ''web'', ''main.ts''] = Some [''lost'']"
    by code_simp
  have r': "readConfig taggedHost [''lost''] = Some multiConfigFile"
    by code_simp
  have cf: "config multiConfigFile = Some [apiProject, webProject]"
    by (simp add: multiConfigFile_def)
  have t: "\<not> truthy None"
    by (simp add: truthy_def)
  have p: "GitCommitProjectConfig.path apiProject \<noteq> []"
    by (simp add: apiProject_def)
  have x: "GitCommitProjectConfig.versionRegex apiProject \<noteq> []"
    by (simp add: apiProject_def versionPattern_def)
  have rv: "readVersionFromFile taggedHost [''mono''] (GitCommitProjectConfig.path apiProject)
        (GitCommitProjectConfig.versionRegex apiProject) = Some ''1.2.3''"
    by code_simp
  have rv': "readVersionFromFile taggedHost [''lost''] (GitCommitProjectConfig.path apiProject)
        (GitCommitProjectConfig.versionRegex apiProject) = None"
    by code_simp
  have n: "''1.2.3'' \<noteq> []"
    by simp
  note mono = multi_project_without_name [OF f r cf t,
      where v = "''1.2.3''" and projectRoot = "[''mono'']"]
  note lost = multi_project_without_name [OF f' r' cf t, where projectRoot = "[''lost'']"]
  have a: "getProjectConfig taggedHost [''mono''] None = Some apiProject"
    using mono by blast
  have b: "getProjectVersion taggedHost [''mono'', ''web'', ''src'', ''main.ts''] None
             = Some ''1.2.3''
           \<and> getCurrentVersion taggedHost [''mono'']
                (Some [''mono'', ''web'', ''src'', ''main.ts'']) None = Inr ''1.2.3''"
    using mono p x rv n by blast
  have c: "getVersionInfo taggedHost [''mono''] (Some [''mono'', ''web'', ''src'', ''main.ts''])
             None = []"
    using mono by blast
  have d: "getProjectVersion taggedHost [''lost'', ''web'', ''main.ts''] None = None"
    using lost rv' by blast
  have e: "getVersionInfo taggedHost [''lost''] (Some [''lost'', ''web'', ''main.ts'']) None = []"
    using lost by blast
  show ?thesis
    using f r cf t rv a b c f' r' rv' d e by blast
qed

text \<open>
  C1 as stated fails: in the monorepo, for a file of the project \<open>web\<close> and no
  project name, getProjectVersion returns the version of the first project, \<open>api\<close>,
  and getCurrentVersion returns it although HEAD carries a tag.
\<close>

theorem multi_project_counterexample:
  "map_option config (readConfig taggedHost [''mono'']) = Some (Some [apiProject, webProject])
   \<and> getProjectVersion taggedHost [''mono'', ''web'', ''src'', ''main.ts''] None = Some ''1.2.3''
   \<and> getProjectVersion taggedHost [''mono'', ''web'', ''src'', ''main.ts''] None \<noteq> None
   \<and> getCurrentVersion taggedHost [''mono''] (Some [''mono'', ''web'', ''src'', ''main.ts'']) None
       = Inr ''1.2.3''"
  by code_simp

text \<open>
  C2. getCurrentVersion returns the version of the configuration file whenever the
  file path is given and getProjectVersion finds one, whatever the tags are; otherwise
  the trimmed output of \<^verbatim>\<open>git describe --tags --exact-match HEAD\<close> when that
  succeeds with a non-blank output; otherwise the trimmed output of
  \<^verbatim>\<open>git rev-parse --short=8 HEAD\<close>.
\<close>

theorem getCurrentVersion_priority:
  "(filePath = Some fp \<and> getProjectVersion h fp projectNameArg = Some v
      \<longrightarrow> getCurrentVersion h projectRoot filePath projectNameArg = Inr v)
   \<and> ((filePath = None \<or> (filePath = Some fp \<and> getProjectVersion h fp projectNameArg = None))
        \<and> shell h ''git describe --tags --exact-match HEAD'' projectRoot = Inr tagOutput
        \<and> trim tagOutput \<noteq> []
      \<longrightarrow> getCurrentVersion h projectRoot filePath projectNameArg = Inr (trim tagOutput))
   \<and> ((filePath = None \<or> (filePath = Some fp \<and> getProjectVersion h fp projectNameArg = None))
        \<and> (\<forall>out. shell h ''git describe --tags --exact-match HEAD'' projectRoot = Inr out
               \<longrightarrow> trim out = [])
        \<and> shell h ''git rev-parse --short=8 HEAD'' projectRoot = Inr hashOutput
      \<longrightarrow> getCurrentVersion h projectRoot filePath projectNameArg = Inr (trim hashOutput))"
proof (intro conjI impI)
  assume "filePath = Some fp \<and> getProjectVersion h fp projectNameArg = Some v"
  then show "getCurrentVersion h projectRoot filePath projectNameArg = Inr v"
    using getProjectVersion_nonempty [of h fp projectNameArg v]
    by (simp add: getCurrentVersion_def truthy_def)
next
  assume a: "(filePath = None \<or> (filePath = Some fp \<and> getProjectVersion h fp projectNameArg = None))
        \<and> shell h ''git describe --tags --exact-match HEAD'' projectRoot = Inr tagOutput
        \<and> trim tagOutput \<noteq> []"
  then have "(case filePath of Some fp \<Rightarrow> getProjectVersion h fp projectNameArg | None \<Rightarrow> None) = None"
    by auto
  then show "getCurrentVersion h projectRoot filePath projectNameArg = Inr (trim tagOutput)"
    using a by (simp add: getCurrentVersion_def truthy_def trim_idem)
next
  assume a: "(filePath = None \<or> (filePath = Some fp \<and> getProjectVersion h fp projectNameArg = None))
        \<and> (\<forall>out. shell h ''git describe --tags --exact-match HEAD'' projectRoot = Inr out
               \<longrightarrow> trim out = [])
        \<and> shell h ''git rev-parse --short=8 HEAD'' projectRoot = Inr hashOutput"
  then have n: "(case filePath of Some fp \<Rightarrow> getProjectVersion h fp projectNameArg | None \<Rightarrow> None) = None"
    by auto
  have "trim [] = []" by (simp add: trim_def)
  then have "trim (case shell h ''git describe --tags --exact-match HEAD'' projectRoot of
               Inr stdout \<Rightarrow> trim stdout | Inl _ \<Rightarrow> []) = []"
    using a by (auto split: sum.splits simp: trim_idem)
  then show "getCurrentVersion h projectRoot filePath projectNameArg = Inr (trim hashOutput)"
    using a n by (simp add: getCurrentVersion_def truthy_def)
qed

theorem getCurrentVersion_priority_witness:
  "getProjectVersion taggedHost [''repo'', ''src'', ''main.ts''] None = Some ''1.2.3''
   \<and> shell taggedHost ''git describe --tags --exact-match HEAD'' [''repo'']
       = Inr (''v9.9.9'' @ [CHR 0x0A])
   \<and> getCurrentVersion taggedHost [''repo''] (Some [''repo'', ''src'', ''main.ts'']) None
       = Inr ''1.2.3''
   \<and> getProjectVersion taggedHost [''tmp'', ''notes.txt''] None = None
   \<and> getCurrentVersion taggedHost [''repo''] (Some [''tmp'', ''notes.txt'']) None = Inr ''v9.9.9''
   \<and> getCurrentVersion taggedHost [''repo''] None None = Inr ''v9.9.9''
   \<and> shell untaggedHost ''git describe --tags --exact-match HEAD'' [''repo'']
       = Inl ''fatal: no tag exactly matches''
   \<and> shell untaggedHost ''git rev-parse --short=8 HEAD'' [''repo'']
       = Inr (''a1b2c3d4'' @ [CHR 0x0A])
   \<and> getCurrentVersion untaggedHost [''repo''] None None = Inr ''a1b2c3d4''"
proof -
  have pv: "getProjectVersion taggedHost [''repo'', ''src'', ''main.ts''] None = Some ''1.2.3''"
    by code_simp
  have pn: "getProjectVersion taggedHost [''tmp'', ''notes.txt''] None = None"
    by code_simp
  have tg: "shell taggedHost ''git describe --tags --exact-match HEAD'' [''repo'']
              = Inr (''v9.9.9'' @ [CHR 0x0A])"
    by code_simp
  have tt: "trim (''v9.9.9'' @ [CHR 0x0A]) = ''v9.9.9''"
    by code_simp
  have ut: "shell untaggedHost ''git describe --tags --exact-match HEAD'' [''repo'']
              = Inl ''fatal: no tag exactly matches''"
    by code_simp
  have uh: "shell untaggedHost ''git rev-parse --short=8 HEAD'' [''repo'']
              = Inr (''a1b2c3d4'' @ [CHR 0x0A])"
    by code_simp
  have th: "trim (''a1b2c3d4'' @ [CHR 0x0A]) = ''a1b2c3d4''"
    by code_simp
  have a: "getCurrentVersion taggedHost [''repo''] (Some [''repo'', ''src'', ''main.ts'']) None
             = Inr ''1.2.3''"
    using getCurrentVersion_priority [where h = taggedHost
        and filePath = "Some [''repo'', ''src'', ''main.ts'']"
        and fp = "[''repo'', ''src'', ''main.ts'']" and projectNameArg = None
        and v = "''1.2.3''" and projectRoot = "[''repo'']"] pv
    by blast
  have b: "getCurrentVersion taggedHost [''repo''] (Some [''tmp'', ''notes.txt'']) None
             = Inr ''v9.9.9''"
    using getCurrentVersion_priority [where h = taggedHost
        and filePath = "Some [''tmp'', ''notes.txt'']"
        and fp = "[''tmp'', ''notes.txt'']" and projectNameArg = None
        and projectRoot = "[''repo'']" and tagOutput = "''v9.9.9'' @ [CHR 0x0A]"] pn tg tt
    by simp
  have c: "getCurrentVersion taggedHost [''repo''] None None = Inr ''v9.9.9''"
    using getCurrentVersion_priority [where h = taggedHost and filePath = None
        and projectNameArg = None
        and projectRoot = "[''repo'']" and tagOutput = "''v9.9.9'' @ [CHR 0x0A]"] tg tt
    by simp
  have d: "getCurrentVersion untaggedHost [''repo''] None None = Inr ''a1b2c3d4''"
    using getCurrentVersion_priority [where h = untaggedHost and filePath = None
        and projectNameArg = None
        and projectRoot = "[''repo'']" and hashOutput = "''a1b2c3d4'' @ [CHR 0x0A]"] ut uh th
    by simp
  show ?thesis
    using pv pn tg ut uh a b c d by simp
qed

text \<open>
  C7 fails on the code where the first capture group is present and empty: for the
  pattern \<^verbatim>\<open>v(\d*)\<close> and the content \<open>v\<close> the match has the whole text
  \<open>v\<close> and the first group, the empty text, and readVersionFromFile returns the whole
  match, not the group. The claim's example holds: for the pattern
  \<^verbatim>\<open>"version"\s*:\s*"([\d.]+)"\<close> and the content \<^verbatim>\<open>{"version": "1.2.3"}\<close>
  it returns \<open>1.2.3\<close>.
\<close>

theorem readVersionFromFile_empty_group:
  \<open>nodeAt taggedHost (pathJoin [''repo''] ''VERSION'') = Some (File ''v'')
   \<and> regExpMatch taggedHost emptyGroupPattern ''v'' = Match ''v'' [Some []]
   \<and> readVersionFromFile taggedHost [''repo''] ''VERSION'' emptyGroupPattern = Some ''v''
   \<and> readVersionFromFile taggedHost [''repo''] ''VERSION'' emptyGroupPattern \<noteq> Some (trim [])
   \<and> nodeAt taggedHost (pathJoin [''repo''] ''package.json'')
       = Some (File ''{"version": "1.2.3"}'')
   \<and> regExpMatch taggedHost versionPattern ''{"version": "1.2.3"}''
       = Match ''"version": "1.2.3"'' [Some ''1.2.3'']
   \<and> readVersionFromFile taggedHost [''repo''] ''package.json'' versionPattern = Some ''1.2.3''
   \<and> readVersionFromFile taggedHost [''repo''] ''package.json/'' versionPattern = None\<close>
  by code_simp


section \<open>Properties of the Git Flow operations\<close>

lemma trim_Nil: "trim [] = []"
  by (simp add: trim_def)

lemma traced_simps:
  "repositoryRoot (traced h) (w, l) = repositoryRoot h w"
  "fileExists (traced h) p (w, l) = fileExists h p w"
  "execFileGit (traced h) args cwd (w, l) =
     (case execFileGit h args cwd w of (result, w') \<Rightarrow> (result, (w', l @ [args])))"
  by (simp_all add: traced_def)

lemma executeGitCommand_traced:
  "executeGitCommand (traced h) args cwd (w, l) =
     (case executeGitCommand h args cwd w of (result, w') \<Rightarrow> (result, (w', l @ [args])))"
  by (simp add: executeGitCommand_def traced_simps split: prod.splits sum.splits)

lemma isInitialized_traced:
  "fst (isInitialized (traced h) (w, l)) = fst (isInitialized h w)"
  "set (snd (snd (isInitialized (traced h) (w, []))))
     \<subseteq> {[''config'', ''--get'', ''gitflow.branch.master'']}"
  by (auto simp: isInitialized_def traced_simps executeGitCommand_traced
           split: option.splits prod.splits sum.splits)

text \<open>
  C10. In a repository where isInitialized answers no, startHotfix, like startFeature
  and startRelease, throws the error "Git Flow not initialized", and the only git
  command that has run by then is the query \<^verbatim>\<open>config --get gitflow.branch.master\<close>
  of isInitialized: no checkout, no pull, no branch creation. (Outside a repository the
  three operations throw "no repository" before any command.)
\<close>

theorem start_requires_initialized:
  assumes "repositoryRoot h w = Some repoRoot"
    and "\<not> fst (isInitialized h w)"
  shows "fst (startHotfix h version w) = Inl NotInitialized
       \<and> fst (startFeature h version w) = Inl NotInitialized
       \<and> fst (startRelease h version w) = Inl NotInitialized
       \<and> set (snd (snd (startHotfix (traced h) version (w, []))))
            \<subseteq> {[''config'', ''--get'', ''gitflow.branch.master'']}
       \<and> set (snd (snd (startFeature (traced h) version (w, []))))
            \<subseteq> {[''config'', ''--get'', ''gitflow.branch.master'']}
       \<and> set (snd (snd (startRelease (traced h) version (w, []))))
            \<subseteq> {[''config'', ''--get'', ''gitflow.branch.master'']}"
proof -
  obtain w1 where i: "isInitialized h w = (False, w1)"
    using assms(2) by (cases "isInitialized h w") auto
  have t: "\<not> fst (isInitialized (traced h) (w, []))"
    using assms(2) by (simp add: isInitialized_traced)
  then obtain w2 where j: "isInitialized (traced h) (w, []) = (False, w2)"
    by (cases "isInitialized (traced h) (w, [])") auto
  have l: "set (snd w2) \<subseteq> {[''config'', ''--get'', ''gitflow.branch.master'']}"
    using isInitialized_traced(2) [of h w] j by simp
  have r: "repositoryRoot (traced h) (w, []) = Some repoRoot"
    using assms(1) by (simp add: traced_simps)
  show ?thesis
    using assms(1) i j l r
    by (simp add: startHotfix_def startFeature_def startRelease_def throw_def)
qed

theorem start_requires_initialized_witness:
  "repositoryRoot simGit freshRepo = Some [''repo'']
   \<and> \<not> fst (isInitialized simGit freshRepo)
   \<and> fst (startHotfix simGit ''1.0.2'' freshRepo) = Inl NotInitialized
   \<and> snd (snd (startHotfix (traced simGit) ''1.0.2'' (freshRepo, [])))
       = [[''config'', ''--get'', ''gitflow.branch.master'']]
   \<and> snd (startHotfix simGit ''1.0.2'' freshRepo) = freshRepo"
proof -
  have a: "repositoryRoot simGit freshRepo = Some [''repo'']"
    by code_simp
  have b: "\<not> fst (isInitialized simGit freshRepo)"
    by code_simp
  have c: "snd (snd (startHotfix (traced simGit) ''1.0.2'' (freshRepo, [])))
       = [[''config'', ''--get'', ''gitflow.branch.master'']]"
    by code_simp
  have d: "snd (startHotfix simGit ''1.0.2'' freshRepo) = freshRepo"
    by code_simp
  show ?thesis
    using start_requires_initialized [OF a b, of "''1.0.2''"] a b c d by simp
qed

lemma succeed_apply: "succeed x w = (Inr x, w)"
  by (simp add: succeed_def)

lemma andThen_apply:
  "andThen m f w = (case m w of (Inl e, w') \<Rightarrow> (Inl e, w') | (Inr x, w') \<Rightarrow> f x w')"
  by (simp add: andThen_def)

lemma reaches_refl: "reaches c c"
  by (cases c) simp

lemma executeGitCommand_sim:
  "executeGitCommand (traced simGit) args root (r, l) = afterCommand args l (simExec args root r)"
  by (simp add: executeGitCommand_def traced_def simGit_def afterCommand_def
        split: prod.splits sum.splits)

lemma simExec_dispatch:
  assumes "workTree r = Some root"
  shows "simExec [''config'', ''--get'', key] root r = configGet key r"
    and "key \<noteq> ''--get'' \<Longrightarrow> simExec [''config'', key, v] root r = configSet key v r"
    and "simExec [''branch'', ''--list''] root r = (Inr (branchListing r), r)"
    and "simExec [''checkout'', b] root r = checkoutBranch b r"
    and "simExec [''checkout'', ''-b'', b] root r = createBranch b r"
    and "simExec [''pull'', ''origin'', b] root r = pull b r"
    and "simExec [''merge'', ''--no-ff'', b] root r = mergeNoFf b r"
    and "simExec [''tag'', ''-a'', t, ''-m'', msg] root r = createTag t msg r"
    and "simExec [''branch'', ''-d'', b] root r = deleteBranch b r"
    and "simExec [''rev-parse'', ''--abbrev-ref'', ''HEAD''] root r
           = (Inr (head r @ [CHR 0x0A]), r)"
  using assms by (simp_all add: simExec_def)

lemma repositoryRoot_sim: "repositoryRoot (traced simGit) (r, l) = workTree r"
  by (simp add: traced_def simGit_def)

lemma configGet_state: "snd (configGet key r) = r"
  by (simp add: configGet_def split: option.splits)

lemma fileExists_sim:
  "fileExists (traced simGit) p (r, l)
     = (case workTree r of Some root \<Rightarrow> p = root @ [''.git'', ''config''] | None \<Rightarrow> False)"
  by (simp add: traced_def simGit_def)

lemmas run_model = repositoryRoot_sim fileExists_sim executeGitCommand_sim simExec_dispatch
  afterCommand_def andThen_def catch_def succeed_def throw_def Let_def
  configGet_def configSet_def checkoutBranch_def createBranch_def pull_def mergeNoFf_def
  createTag_def deleteBranch_def update_conv' delete_conv' map_add_def reaches_refl

lemmas run_sample = run_model trim_def isWhiteSpace_def truthy_def flowRepo_def
  defaultSettings_def


text \<open>
  C6. Where the queries leave the repository as it is, getCurrentBranchType returns
  the first of feature, release, hotfix, support whose configured prefix (the default
  when the setting cannot be read) is a prefix of the current branch name, and null when
  there is none. With the default prefixes \<open>feature/login\<close> is a feature branch and
  \<open>main\<close> is none.
\<close>

theorem getCurrentBranchType_first_match:
  assumes "repositoryRoot h w = Some repoRoot"
    and "execFileGit h [''rev-parse'', ''--abbrev-ref'', ''HEAD''] repoRoot w
           = (Inr branchOutput, w)"
    and "\<forall>key. snd (execFileGit h [''config'', ''--get'', key] repoRoot w) = w"
  shows "fst (getCurrentBranchType h w)
           = map_option fst
               (find (\<lambda>(role, p). prefix p (trim branchOutput))
                  [(Feature, configuredPrefix h repoRoot w ''gitflow.prefix.feature'' ''feature/''),
                   (Release, configuredPrefix h repoRoot w ''gitflow.prefix.release'' ''release/''),
                   (Hotfix, configuredPrefix h repoRoot w ''gitflow.prefix.hotfix'' ''hotfix/''),
                   (Support, configuredPrefix h repoRoot w ''gitflow.prefix.support'' ''support/'')])
       \<and> fst (getCurrentBranchType simGit (onBranch ''feature/login'')) = Some Feature
       \<and> fst (getCurrentBranchType simGit (onBranch ''main'')) = None"
proof -
  have q: "execFileGit h [''config'', ''--get'', key] repoRoot w
             = (fst (execFileGit h [''config'', ''--get'', key] repoRoot w), w)" for key
    using assms(3) by (metis prod.collapse)
  have cp: "catch (executeGitCommand h [''config'', ''--get'', key] repoRoot)
              (\<lambda>_. succeed fallback) w
            = (Inr (configuredPrefix h repoRoot w key fallback), w)" for key fallback
    using q [of key]
    by (cases "fst (execFileGit h [''config'', ''--get'', key] repoRoot w)")
       (simp_all add: catch_def executeGitCommand_def succeed_def configuredPrefix_def)
  have b: "executeGitCommand h [''rev-parse'', ''--abbrev-ref'', ''HEAD''] repoRoot w
             = (Inr (trim branchOutput), w)"
    using assms(2) by (simp add: executeGitCommand_def)
  have general: "fst (getCurrentBranchType h w)
           = map_option fst
               (find (\<lambda>(role, p). prefix p (trim branchOutput))
                  [(Feature, configuredPrefix h repoRoot w ''gitflow.prefix.feature'' ''feature/''),
                   (Release, configuredPrefix h repoRoot w ''gitflow.prefix.release'' ''release/''),
                   (Hotfix, configuredPrefix h repoRoot w ''gitflow.prefix.hotfix'' ''hotfix/''),
                   (Support, configuredPrefix h repoRoot w ''gitflow.prefix.support'' ''support/'')])"
    by (simp add: getCurrentBranchType_def assms(1) andThen_apply b cp succeed_apply startsWith_def)
  have "fst (getCurrentBranchType simGit (onBranch ''feature/login'')) = Some Feature"
    by (simp add: getCurrentBranchType_def onBranch_def freshRepo_def simGit_def
          executeGitCommand_def simExec_dispatch configGet_def andThen_def catch_def
          succeed_def startsWith_def trim_def isWhiteSpace_def)
  moreover have "fst (getCurrentBranchType simGit (onBranch ''main'')) = None"
    by (simp add: getCurrentBranchType_def onBranch_def freshRepo_def simGit_def
          executeGitCommand_def simExec_dispatch configGet_def andThen_def catch_def
          succeed_def startsWith_def trim_def isWhiteSpace_def)
  ultimately show ?thesis
    using general by simp
qed

theorem getCurrentBranchType_first_match_witness:
  "repositoryRoot simGit flowRepo = Some [''repo'']
   \<and> execFileGit simGit [''rev-parse'', ''--abbrev-ref'', ''HEAD''] [''repo''] flowRepo
       = (Inr (''release/1.0.0'' @ [CHR 0x0A]), flowRepo)
   \<and> configuredPrefix simGit [''repo''] flowRepo ''gitflow.prefix.feature'' ''feature/''
       = ''feature/''
   \<and> configuredPrefix simGit [''repo''] flowRepo ''gitflow.prefix.release'' ''release/''
       = ''release/''
   \<and> fst (getCurrentBranchType simGit flowRepo) = Some Release"
proof -
  have a: "repositoryRoot simGit flowRepo = Some [''repo'']"
    by (simp add: simGit_def flowRepo_def)
  have wt: "workTree flowRepo = Some [''repo'']"
    by (simp add: flowRepo_def)
  have b: "execFileGit simGit [''rev-parse'', ''--abbrev-ref'', ''HEAD''] [''repo''] flowRepo
       = (Inr (''release/1.0.0'' @ [CHR 0x0A]), flowRepo)"
    using wt by (simp add: simGit_def simExec_dispatch) (simp add: flowRepo_def)
  have c: "\<forall>key. snd (execFileGit simGit [''config'', ''--get'', key] [''repo''] flowRepo)
             = flowRepo"
    using wt by (simp add: simGit_def simExec_dispatch configGet_state)
  have p: "configuredPrefix simGit [''repo''] flowRepo ''gitflow.prefix.feature'' ''feature/''
       = ''feature/''"
     "configuredPrefix simGit [''repo''] flowRepo ''gitflow.prefix.release'' ''release/''
       = ''release/''"
     "configuredPrefix simGit [''repo''] flowRepo ''gitflow.prefix.hotfix'' ''hotfix/''
       = ''hotfix/''"
     "configuredPrefix simGit [''repo''] flowRepo ''gitflow.prefix.support'' ''support/''
       = ''support/''"
    using wt
    by (simp_all add: configuredPrefix_def simGit_def simExec_dispatch configGet_def)
       (simp_all add: flowRepo_def defaultSettings_def trim_def isWhiteSpace_def)
  have t: "trim (''release/1.0.0'' @ [CHR 0x0A]) = ''release/1.0.0''"
    by (simp add: trim_def isWhiteSpace_def)
  have "fst (getCurrentBranchType simGit flowRepo) = Some Release"
    using getCurrentBranchType_first_match [OF a b c] unfolding p t by simp
  then show ?thesis
    using a b p by simp
qed

lemma pullNeverFails_simps:
  "repositoryRoot (pullNeverFails h) = repositoryRoot h"
  "fileExists (pullNeverFails h) = fileExists h"
  by (simp_all add: pullNeverFails_def)

lemma executeGitCommand_pullNeverFails:
  "a \<noteq> ''pull'' \<Longrightarrow>
     executeGitCommand (pullNeverFails h) (a # args) cwd = executeGitCommand h (a # args) cwd"
  by (rule ext) (simp add: executeGitCommand_def pullNeverFails_def split: prod.splits sum.splits)

lemma pull_pullNeverFails:
  "catch (executeGitCommand (pullNeverFails h) (''pull'' # args) cwd) (\<lambda>_. succeed [])
     = catch (executeGitCommand h (''pull'' # args) cwd) (\<lambda>_. succeed [])"
  by (rule ext)
     (simp add: executeGitCommand_def pullNeverFails_def catch_def succeed_def trim_Nil
           split: prod.splits sum.splits)

lemma isInitialized_pullNeverFails:
  "isInitialized (pullNeverFails h) = isInitialized h"
  by (rule ext)
     (simp add: isInitialized_def pullNeverFails_simps executeGitCommand_pullNeverFails
           cong: option.case_cong if_cong)

lemma start_pullNeverFails:
  "startFeature (pullNeverFails h) name = startFeature h name"
  "startRelease (pullNeverFails h) name = startRelease h name"
  "startHotfix (pullNeverFails h) name = startHotfix h name"
  by (simp_all add: startFeature_def startRelease_def startHotfix_def pullNeverFails_simps
        isInitialized_pullNeverFails executeGitCommand_pullNeverFails pull_pullNeverFails
        cong: option.case_cong prod.case_cong bool.case_cong if_cong)

lemma finish_pullNeverFails:
  "finishFeature (pullNeverFails h) name keepBranch = finishFeature h name keepBranch"
  "finishRelease (pullNeverFails h) name keepBranch tagMessage
     = finishRelease h name keepBranch tagMessage"
  "finishHotfix (pullNeverFails h) name keepBranch tagMessage
     = finishHotfix h name keepBranch tagMessage"
  by (simp_all add: finishFeature_def finishRelease_def finishHotfix_def pullNeverFails_simps
        executeGitCommand_pullNeverFails pull_pullNeverFails
        cong: option.case_cong prod.case_cong bool.case_cong if_cong)


text \<open>
  C8. Each start and finish operation behaves in a world where a failing pull reports
  success as it does in the world itself: the failure of \<^verbatim>\<open>git pull\<close> has no
  effect on what runs afterwards nor on the outcome. In the sample repository, which has
  no remote, every pull fails, and each of the six operations runs its remaining
  commands and completes successfully.
\<close>

theorem pull_failure_is_swallowed:
  "startFeature (pullNeverFails h) name = startFeature h name
   \<and> startRelease (pullNeverFails h) name = startRelease h name
   \<and> startHotfix (pullNeverFails h) name = startHotfix h name
   \<and> finishFeature (pullNeverFails h) name keepBranch = finishFeature h name keepBranch
   \<and> finishRelease (pullNeverFails h) name keepBranch tagMessage
       = finishRelease h name keepBranch tagMessage
   \<and> finishHotfix (pullNeverFails h) name keepBranch tagMessage
       = finishHotfix h name keepBranch tagMessage
   \<and> fst (execFileGit simGit [''pull'', ''origin'', ''develop''] [''repo''] flowRepo)
       = Inl ''fatal: origin does not appear to be a git repository''
   \<and> fst (execFileGit simGit [''pull'', ''origin'', ''master''] [''repo''] flowRepo)
       = Inl ''fatal: origin does not appear to be a git repository''
   \<and> (let (result, world, log) = startFeature (traced simGit) ''search'' (flowRepo, [])
      in result = Inr ()
         \<and> drop 3 log = [[''checkout'', ''develop''], [''pull'', ''origin'', ''develop''],
                          [''checkout'', ''-b'', ''feature/search'']])
   \<and> (let (result, world, log) = startRelease (traced simGit) ''1.1.0'' (flowRepo, [])
      in result = Inr ()
         \<and> drop 3 log = [[''checkout'', ''develop''], [''pull'', ''origin'', ''develop''],
                          [''checkout'', ''-b'', ''release/1.1.0'']])
   \<and> (let (result, world, log) = startHotfix (traced simGit) ''1.0.2'' (flowRepo, [])
      in result = Inr ()
         \<and> drop 3 log = [[''checkout'', ''master''], [''pull'', ''origin'', ''master''],
                          [''checkout'', ''-b'', ''hotfix/1.0.2'']])
   \<and> (let (result, world, log) = finishFeature (traced simGit) ''login'' False (flowRepo, [])
      in result = Inr ()
         \<and> drop 2 log = [[''checkout'', ''develop''], [''pull'', ''origin'', ''develop''],
                          [''merge'', ''--no-ff'', ''feature/login''],
                          [''branch'', ''-d'', ''feature/login'']])
   \<and> (let (result, world, log) = finishRelease (traced simGit) ''1.0.0'' False None (flowRepo, [])
      in result = Inr ()
         \<and> drop 4 log = [[''checkout'', ''master''], [''pull'', ''origin'', ''master''],
                          [''merge'', ''--no-ff'', ''release/1.0.0''],
                          [''tag'', ''-a'', ''1.0.0'', ''-m'', ''Release 1.0.0''],
                          [''checkout'', ''develop''], [''pull'', ''origin'', ''develop''],
                          [''merge'', ''--no-ff'', ''release/1.0.0''],
                          [''branch'', ''-d'', ''release/1.0.0'']])
   \<and> (let (result, world, log) = finishHotfix (traced simGit) ''1.0.1'' False None (flowRepo, [])
      in result = Inr ()
         \<and> drop 4 log = [[''checkout'', ''master''], [''pull'', ''origin'', ''master''],
                          [''merge'', ''--no-ff'', ''hotfix/1.0.1''],
                          [''tag'', ''-a'', ''1.0.1'', ''-m'', ''Hotfix 1.0.1''],
                          [''checkout'', ''develop''], [''pull'', ''origin'', ''develop''],
                          [''merge'', ''--no-ff'', ''hotfix/1.0.1''],
                          [''branch'', ''-d'', ''hotfix/1.0.1'']])"
proof -
  have p: "fst (execFileGit simGit [''pull'', ''origin'', ''develop''] [''repo''] flowRepo)
       = Inl ''fatal: origin does not appear to be a git repository''"
      "fst (execFileGit simGit [''pull'', ''origin'', ''master''] [''repo''] flowRepo)
       = Inl ''fatal: origin does not appear to be a git repository''"
    by (simp_all add: simGit_def simExec_dispatch pull_def flowRepo_def)
  have s1: "(let (result, world, log) = startFeature (traced simGit) ''search'' (flowRepo, [])
      in result = Inr ()
         \<and> drop 3 log = [[''checkout'', ''develop''], [''pull'', ''origin'', ''develop''],
                          [''checkout'', ''-b'', ''feature/search'']])"
    by (simp add: startFeature_def isInitialized_def run_sample)
  have s2: "(let (result, world, log) = startRelease (traced simGit) ''1.1.0'' (flowRepo, [])
      in result = Inr ()
         \<and> drop 3 log = [[''checkout'', ''develop''], [''pull'', ''origin'', ''develop''],
                          [''checkout'', ''-b'', ''release/1.1.0'']])"
    by (simp add: startRelease_def isInitialized_def run_sample)
  have s3: "(let (result, world, log) = startHotfix (traced simGit) ''1.0.2'' (flowRepo, [])
      in result = Inr ()
         \<and> drop 3 log = [[''checkout'', ''master''], [''pull'', ''origin'', ''master''],
                          [''checkout'', ''-b'', ''hotfix/1.0.2'']])"
    by (simp add: startHotfix_def isInitialized_def run_sample)
  have f1: "(let (result, world, log) = finishFeature (traced simGit) ''login'' False (flowRepo, [])
      in result = Inr ()
         \<and> drop 2 log = [[''checkout'', ''develop''], [''pull'', ''origin'', ''develop''],
                          [''merge'', ''--no-ff'', ''feature/login''],
                          [''branch'', ''-d'', ''feature/login'']])"
    by (simp add: finishFeature_def run_sample)
  have f2: "(let (result, world, log) = finishRelease (traced simGit) ''1.0.0'' False None (flowRepo, [])
      in result = Inr ()
         \<and> drop 4 log = [[''checkout'', ''master''], [''pull'', ''origin'', ''master''],
                          [''merge'', ''--no-ff'', ''release/1.0.0''],
                          [''tag'', ''-a'', ''1.0.0'', ''-m'', ''Release 1.0.0''],
                          [''checkout'', ''develop''], [''pull'', ''origin'', ''develop''],
                          [''merge'', ''--no-ff'', ''release/1.0.0''],
                          [''branch'', ''-d'', ''release/1.0.0'']])"
    by (simp add: finishRelease_def run_sample)
  have f3: "(let (result, world, log) = finishHotfix (traced simGit) ''1.0.1'' False None (flowRepo, [])
      in result = Inr ()
         \<and> drop 4 log = [[''checkout'', ''master''], [''pull'', ''origin'', ''master''],
                          [''merge'', ''--no-ff'', ''hotfix/1.0.1''],
                          [''tag'', ''-a'', ''1.0.1'', ''-m'', ''Hotfix 1.0.1''],
                          [''checkout'', ''develop''], [''pull'', ''origin'', ''develop''],
                          [''merge'', ''--no-ff'', ''hotfix/1.0.1''],
                          [''branch'', ''-d'', ''hotfix/1.0.1'']])"
    by (simp add: finishHotfix_def run_sample)
  have e: "startFeature (pullNeverFails h) name = startFeature h name
      \<and> startRelease (pullNeverFails h) name = startRelease h name
      \<and> startHotfix (pullNeverFails h) name = startHotfix h name
      \<and> finishFeature (pullNeverFails h) name keepBranch = finishFeature h name keepBranch
      \<and> finishRelease (pullNeverFails h) name keepBranch tagMessage
          = finishRelease h name keepBranch tagMessage
      \<and> finishHotfix (pullNeverFails h) name keepBranch tagMessage
          = finishHotfix h name keepBranch tagMessage"
    by (simp only: start_pullNeverFails finish_pullNeverFails simp_thms)
  show ?thesis
    using e p s1 s2 s3 f1 f2 f3 by blast
qed




text \<open>
  C9 fails on the code: init looks for the name of the development branch anywhere in
  the output of \<^verbatim>\<open>git branch --list\<close>. In a repository whose branches are
  \<open>master\<close> and \<open>feature/develop-ui\<close>, init with the default names stores the seven
  settings and returns, no command has created \<open>develop\<close>, and the branch does not
  exist afterwards. In the repository with \<open>master\<close> alone, init creates it from HEAD.
\<close>

theorem init_develop_substring:
  "map_of (branches busyRepo) ''develop'' = None
   \<and> (case init (traced simGit) noOverrides (busyRepo, []) of
         (result, r', log) \<Rightarrow>
           result = Inr DEFAULT_CONFIG
           \<and> settings r' = defaultSettings
           \<and> log = [[''config'', ''gitflow.branch.master'', ''master''],
                    [''config'', ''gitflow.branch.develop'', ''develop''],
                    [''config'', ''gitflow.prefix.feature'', ''feature/''],
                    [''config'', ''gitflow.prefix.release'', ''release/''],
                    [''config'', ''gitflow.prefix.hotfix'', ''hotfix/''],
                    [''config'', ''gitflow.prefix.support'', ''support/''],
                    [''config'', ''gitflow.prefix.versiontag'', []],
                    [''branch'', ''--list'']]
           \<and> map_of (branches r') ''develop'' = None)
   \<and> (case init (traced simGit) noOverrides (freshRepo, []) of
         (result, r', log) \<Rightarrow>
           result = Inr DEFAULT_CONFIG
           \<and> settings r' = defaultSettings
           \<and> last log = [''checkout'', ''-b'', ''develop'']
           \<and> map_of (branches r') ''develop'' = Some (Commit 0 [])
           \<and> head r' = ''develop'')"
  by (simp add: init_def finalConfigOf_def noOverrides_def DEFAULT_CONFIG_def busyRepo_def
        freshRepo_def run_model trim_def isWhiteSpace_def branchListing_def includesStr_def
        sublist_code defaultSettings_def)

end
